theory Spec2Isabelle
  imports Main
begin

section \<open>Strings and paths\<close>

text \<open>
  Go strings are byte sequences; they are modelled as \<^typ>\<open>string\<close> (a list of 8-bit
  characters), UTF-8 encoded as in the source files. The icons of the log lines and
  of the validation results are given by their UTF-8 bytes.
\<close>

definition gear :: string where
  "gear = [CHR 0xE2, CHR 0x9A, CHR 0x99, CHR 0xEF, CHR 0xB8, CHR 0x8F]"

definition crossMark :: string where
  "crossMark = [CHR 0xE2, CHR 0x9D, CHR 0x8C]"

definition checkMark :: string where
  "checkMark = [CHR 0xE2, CHR 0x9C, CHR 0x93]"

definition whale :: string where
  "whale = [CHR 0xF0, CHR 0x9F, CHR 0x90, CHR 0xB3]"

definition helmSymbol :: string where
  "helmSymbol = [CHR 0xE2, CHR 0x8E, CHR 0x88]"

definition partyPopper :: string where
  "partyPopper = [CHR 0xF0, CHR 0x9F, CHR 0x8E, CHR 0x89]"

definition boxDouble :: string where
  "boxDouble = [CHR 0xE2, CHR 0x95, CHR 0x90]"

definition heavyCheck :: string where
  "heavyCheck = [CHR 0xE2, CHR 0x9C, CHR 0x85]"

definition lockWithKey :: string where
  "lockWithKey = [CHR 0xF0, CHR 0x9F, CHR 0x94, CHR 0x90]"

definition pageFacingUp :: string where
  "pageFacingUp = [CHR 0xF0, CHR 0x9F, CHR 0x93, CHR 0x84]"

definition wheelOfDharma :: string where
  "wheelOfDharma = [CHR 0xE2, CHR 0x98, CHR 0xB8, CHR 0xEF, CHR 0xB8, CHR 0x8F]"

definition hammerAndWrench :: string where
  "hammerAndWrench = [CHR 0xF0, CHR 0x9F, CHR 0x9B, CHR 0xA0, CHR 0xEF, CHR 0xB8, CHR 0x8F]"

definition nextTrack :: string where
  "nextTrack = [CHR 0xE2, CHR 0x8F, CHR 0xAD, CHR 0xEF, CHR 0xB8, CHR 0x8F]"

definition hammer :: string where
  "hammer = [CHR 0xF0, CHR 0x9F, CHR 0x94, CHR 0xA8]"

definition testTube :: string where
  "testTube = [CHR 0xF0, CHR 0x9F, CHR 0xA7, CHR 0xAA]"

definition outboxTray :: string where
  "outboxTray = [CHR 0xF0, CHR 0x9F, CHR 0x93, CHR 0xA4]"

definition syringe :: string where
  "syringe = [CHR 0xF0, CHR 0x9F, CHR 0x92, CHR 0x89]"

definition rocket :: string where
  "rocket = [CHR 0xF0, CHR 0x9F, CHR 0x9A, CHR 0x80]"

text \<open>The escape byte of the ANSI colour sequences (\<^verbatim>\<open>\033\<close> in the source).\<close>

definition esc :: string where
  "esc = [CHR 0x1B]"

text \<open>
  \<^verbatim>\<open>strings.ToLower\<close>. The bytes \<^verbatim>\<open>A\<close>..\<^verbatim>\<open>Z\<close> are mapped to \<^verbatim>\<open>a\<close>..\<^verbatim>\<open>z\<close>;
  other bytes are kept. Go also lowers letters outside ASCII, but none of them
  lowers to \<^verbatim>\<open>y\<close>, \<^verbatim>\<open>e\<close> or \<^verbatim>\<open>s\<close>, so the comparison with \<^verbatim>\<open>"yes"\<close> in
  \<^verbatim>\<open>parseBool\<close>, the only use, is not affected.
\<close>

definition toLowerByte :: "char \<Rightarrow> char" where
  "toLowerByte c =
     (let n = (of_char c :: nat) in if 65 \<le> n \<and> n \<le> 90 then char_of (n + 32) else c)"

definition ToLower :: "string \<Rightarrow> string" where
  "ToLower s = map toLowerByte s"

text \<open>\<^verbatim>\<open>strings.HasPrefix\<close>.\<close>

definition HasPrefix :: "string \<Rightarrow> string \<Rightarrow> bool" where
  "HasPrefix s p = (take (length p) s = p)"

text \<open>
  \<^verbatim>\<open>strings.Split\<close> for a separator of one byte (the source splits on \<^verbatim>\<open>","\<close>, and
  the path functions on \<^verbatim>\<open>"/"\<close>): \<open>n\<close> separators give \<open>n + 1\<close> pieces.
\<close>

fun Split :: "string \<Rightarrow> char \<Rightarrow> string list" where
  "Split [] sep = [[]]"
| "Split (c # cs) sep =
     (if c = sep then [] # Split cs sep
      else (case Split cs sep of
              [] \<Rightarrow> [[c]]
            | x # xs \<Rightarrow> (c # x) # xs))"

text \<open>\<^verbatim>\<open>strings.Join\<close>.\<close>

fun joinStrings :: "string list \<Rightarrow> string \<Rightarrow> string" where
  "joinStrings [] sep = []"
| "joinStrings [x] sep = x"
| "joinStrings (x # y # ys) sep = x @ sep @ joinStrings (y # ys) sep"

text \<open>
  \<^verbatim>\<open>strings.TrimSpace\<close> removes the leading and trailing white space, as Unicode
  defines it. \<open>spaceRunes\<close> lists the UTF-8 encodings of the white-space code points
  (U+0009..U+000D, U+0020, U+0085, U+00A0, U+1680, U+2000..U+200A, U+2028, U+2029,
  U+202F, U+205F, U+3000).
\<close>

definition spaceRunes :: "string list" where
  "spaceRunes =
     [[CHR 0x09], [CHR 0x0A], [CHR 0x0B], [CHR 0x0C], [CHR 0x0D], [CHR 0x20],
      [CHR 0xC2, CHR 0x85], [CHR 0xC2, CHR 0xA0], [CHR 0xE1, CHR 0x9A, CHR 0x80],
      [CHR 0xE2, CHR 0x80, CHR 0x80], [CHR 0xE2, CHR 0x80, CHR 0x81],
      [CHR 0xE2, CHR 0x80, CHR 0x82], [CHR 0xE2, CHR 0x80, CHR 0x83],
      [CHR 0xE2, CHR 0x80, CHR 0x84], [CHR 0xE2, CHR 0x80, CHR 0x85],
      [CHR 0xE2, CHR 0x80, CHR 0x86], [CHR 0xE2, CHR 0x80, CHR 0x87],
      [CHR 0xE2, CHR 0x80, CHR 0x88], [CHR 0xE2, CHR 0x80, CHR 0x89],
      [CHR 0xE2, CHR 0x80, CHR 0x8A], [CHR 0xE2, CHR 0x80, CHR 0xA8],
      [CHR 0xE2, CHR 0x80, CHR 0xA9], [CHR 0xE2, CHR 0x80, CHR 0xAF],
      [CHR 0xE2, CHR 0x81, CHR 0x9F], [CHR 0xE3, CHR 0x80, CHR 0x80]]"

definition stripRune :: "string list \<Rightarrow> string \<Rightarrow> string option" where
  "stripRune runes s =
     map_option (\<lambda>q. drop (length q) s)
       (find (\<lambda>q. q \<noteq> [] \<and> take (length q) s = q) runes)"

function trimLeftRunes :: "string list \<Rightarrow> string \<Rightarrow> string" where
  "trimLeftRunes runes s =
     (case stripRune runes s of
        None \<Rightarrow> s
      | Some s' \<Rightarrow> trimLeftRunes runes s')"
  by pat_completeness auto
termination
proof (relation "measure (\<lambda>(runes, s). length s)")
  show "wf (measure (\<lambda>(runes, s). length s))"
    by simp
next
  fix runes :: "string list" and s s' :: string
  assume "stripRune runes s = Some s'"
  then obtain q where q: "find (\<lambda>q. q \<noteq> [] \<and> take (length q) s = q) runes = Some q"
    and s': "s' = drop (length q) s"
    by (auto simp: stripRune_def)
  from q have "q \<noteq> []" and "take (length q) s = q"
    by (auto simp: find_Some_iff)
  then have "s \<noteq> []" and "0 < length q"
    by auto
  with s' show "((runes, s'), (runes, s)) \<in> measure (\<lambda>(runes, s). length s)"
    by simp
qed

declare trimLeftRunes.simps [simp del]

definition TrimSpace :: "string \<Rightarrow> string" where
  "TrimSpace s =
     rev (trimLeftRunes (map rev spaceRunes) (rev (trimLeftRunes spaceRunes s)))"

text \<open>
  \<^verbatim>\<open>filepath.Clean\<close>, \<^verbatim>\<open>filepath.Join\<close> and \<^verbatim>\<open>filepath.Base\<close> for slash-separated
  paths: empty and \<^verbatim>\<open>.\<close> elements are dropped, an inner \<^verbatim>\<open>..\<close> removes the element
  before it, a \<^verbatim>\<open>..\<close> at the root is dropped.
\<close>

fun cleanElems :: "bool \<Rightarrow> string list \<Rightarrow> string list \<Rightarrow> string list" where
  "cleanElems rooted st [] = rev st"
| "cleanElems rooted st (e # es) =
     (if e = [] \<or> e = ''.'' then cleanElems rooted st es
      else if e = ''..'' then
        (case st of
           [] \<Rightarrow> if rooted then cleanElems rooted [] es else cleanElems rooted [''..''] es
         | t # ts \<Rightarrow>
             if t = ''..'' then cleanElems rooted (''..'' # st) es
             else cleanElems rooted ts es)
      else cleanElems rooted (e # st) es)"

definition Clean :: "string \<Rightarrow> string" where
  "Clean path =
     (case path of
        [] \<Rightarrow> ''.''
      | c # cs \<Rightarrow>
          (let rooted = (c = CHR ''/'');
               out = joinStrings (cleanElems rooted [] (Split path (CHR ''/''))) ''/''
           in if rooted then CHR ''/'' # out
              else if out = [] then ''.'' else out))"

definition Join :: "string list \<Rightarrow> string" where
  "Join elem =
     (case dropWhile (\<lambda>e. e = []) elem of
        [] \<Rightarrow> []
      | e # es \<Rightarrow> Clean (joinStrings (e # es) ''/''))"

definition Base :: "string \<Rightarrow> string" where
  "Base path =
     (if path = [] then ''.''
      else (let p = rev (dropWhile (\<lambda>c. c = CHR ''/'') (rev path));
                b = rev (takeWhile (\<lambda>c. c \<noteq> CHR ''/'') (rev p))
            in if b = [] then ''/'' else b))"

text \<open>Decimal rendering of a number (the verb \<^verbatim>\<open>%d\<close>).\<close>

function showNat :: "nat \<Rightarrow> string" where
  "showNat n =
     (if n < 10 then [char_of (48 + n)]
      else showNat (n div 10) @ [char_of (48 + n mod 10)])"
  by pat_completeness auto
termination
  by (relation "measure id") auto

declare showNat.simps [simp del]

section \<open>Errors, effects and the environment\<close>

text \<open>
  Outcome of \<^verbatim>\<open>os.Stat\<close>: no error, an error for which \<^verbatim>\<open>os.IsNotExist\<close> holds, or any
  other error (permission denied, a path component that is not a directory).
\<close>

datatype stat_result = StatOk | StatNotExist | StatError

text \<open>Outcome of starting an external command and waiting for it.\<close>

datatype proc_outcome = StartError | ExitFailure | ExitSuccess

text \<open>
  The error values of the program. One constructor per message of the source, with the
  values the message is formatted with; \<open>Wrap p e\<close> is \<^verbatim>\<open>fmt.Errorf("p: %w", e)\<close>.
  \<open>ErrProcess\<close> is an error returned by \<^verbatim>\<open>os/exec\<close> for the command with the given
  argument vector; \<open>ErrStdinPipe\<close>, \<open>ErrStdinWrite\<close> and \<open>ErrReadLine\<close> are the errors of the
  pipe of the login command and of reading the confirmation line.
\<close>

datatype error =
    ErrFieldNotFound string
  | ErrFlagRedefined string
  | ErrNoSuchFlag string
  | ErrFlagNotDefined string
  | ErrRequiredField string string
  | ErrInvalidFlavour string
  | ErrEnvVarNotSet string
  | ErrToolNotFound string
  | ErrDockerDaemon
  | ErrValidatorValuesFile string
  | ErrReadKubeconfig string
  | ErrParseKubeconfig string
  | ErrContextNotFound string string
  | ErrImageRepository
  | ErrRegistryCredentials
  | ErrProcess "string list" proc_outcome
  | ErrStdinPipe
  | ErrStdinWrite
  | ErrReadLine
  | ErrChartNotFound string
  | ErrValuesFileNotFound string
  | Wrap string error

text \<open>
  An error of the external tools: an error of \<^verbatim>\<open>os/exec\<close> (the command could not be
  started or exited with a failure, or its input stream failed), possibly wrapped.
\<close>

fun isExternalToolError :: "error \<Rightarrow> bool" where
  "isExternalToolError (ErrProcess argv oc) = True"
| "isExternalToolError ErrStdinPipe = True"
| "isExternalToolError ErrStdinWrite = True"
| "isExternalToolError (Wrap p e) = isExternalToolError e"
| "isExternalToolError e = False"

text \<open>
  What a run does to the outside, in order: a line of the logger (\<^verbatim>\<open>log.Info\<close>,
  \<^verbatim>\<open>log.Infof\<close>, \<^verbatim>\<open>log.Errorf\<close>), a \<^verbatim>\<open>fmt.Print\<close> to the standard output, an external
  command started with its argument vector (the program name first), and bytes written
  to the input stream of the command started last.
\<close>

datatype event =
    LogInfo string
  | LogError string
  | Print string
  | Exec "string list"
  | WriteStdin string

fun execs :: "event list \<Rightarrow> string list list" where
  "execs [] = []"
| "execs (Exec argv # es) = argv # execs es"
| "execs (e # es) = execs es"

fun stdinWrites :: "event list \<Rightarrow> string list" where
  "stdinWrites [] = []"
| "stdinWrites (WriteStdin d # es) = d # stdinWrites es"
| "stdinWrites (e # es) = stdinWrites es"

fun logLines :: "event list \<Rightarrow> string list" where
  "logLines [] = []"
| "logLines (LogInfo l # es) = l # logLines es"
| "logLines (LogError l # es) = l # logLines es"
| "logLines (e # es) = logLines es"

text \<open>
  What the program reads from its environment: environment variables, the working
  directory, the home directory, the file system (\<^verbatim>\<open>os.Stat\<close>, \<^verbatim>\<open>os.ReadFile\<close>), the
  YAML decoder on the content of a kubeconfig (\<open>yamlCurrentContext\<close> for the struct with
  the field \<^verbatim>\<open>current-context\<close>, \<open>yamlContextNames\<close> for the struct with the names of
  \<^verbatim>\<open>contexts\<close>; \<open>None\<close> is a decoding error), \<^verbatim>\<open>exec.LookPath\<close>, the outcome of each
  external command, whether the input pipe of the login command can be created and
  written, and whether a line can be read from the standard input. The environment
  is the same throughout a run.
\<close>

record world =
  Getenv :: "string \<Rightarrow> string"
  Getwd :: "string option"
  UserHomeDir :: "string option"
  Stat :: "string \<Rightarrow> stat_result"
  ReadFile :: "string \<Rightarrow> string option"
  yamlCurrentContext :: "string \<Rightarrow> string option"
  yamlContextNames :: "string \<Rightarrow> string list option"
  LookPath :: "string \<Rightarrow> bool"
  procOutcome :: "string list \<Rightarrow> proc_outcome"
  stdinPipeOk :: bool
  stdinWriteOk :: bool
  readLineOk :: bool

text \<open>\<^verbatim>\<open>cmd.Run()\<close> of \<^verbatim>\<open>exec.Command(argv...)\<close>.\<close>

definition runCommand :: "world \<Rightarrow> string list \<Rightarrow> error option \<times> event list" where
  "runCommand w argv =
     (case procOutcome w argv of
        ExitSuccess \<Rightarrow> (None, [Exec argv])
      | oc \<Rightarrow> (Some (ErrProcess argv oc), [Exec argv]))"

section \<open>Configuration\<close>

record ValidationResult =
  Name :: string
  Icon :: string
  Message :: string
  Err :: "error option"

record Config =
  ArtifactName :: string
  HelmFlavour :: string
  DockerNamespace :: string
  DockerHost :: string
  KubernetesConfig :: string
  KubernetesContext :: string
  Env :: "string list"
  DryRun :: bool
  RunDockerBuild :: bool
  AutoApprove :: bool

record ConfigField =
  Name :: string
  ConfigPath :: string
  Flag :: string
  Description :: string
  Required :: bool
  Default :: string

definition defaultKubeConfigPath :: "world \<Rightarrow> string" where
  "defaultKubeConfigPath w =
     (case UserHomeDir w of
        None \<Rightarrow> []
      | Some home \<Rightarrow> Join [home, ''.kube'', ''config''])"

definition currentKubeContext :: "world \<Rightarrow> string" where
  "currentKubeContext w =
     (case ReadFile w (defaultKubeConfigPath w) of
        None \<Rightarrow> []
      | Some content \<Rightarrow>
          (case yamlCurrentContext w content of
             None \<Rightarrow> []
           | Some ctx \<Rightarrow> ctx))"

definition currentDirName :: "world \<Rightarrow> string" where
  "currentDirName w =
     (case Getwd w of
        None \<Rightarrow> []
      | Some dir \<Rightarrow> Base dir)"

definition ConfigFields :: "world \<Rightarrow> ConfigField list" where
  "ConfigFields w =
     [\<lparr>Name = ''artifactName'', ConfigPath = ''artifactName'', Flag = ''artifact-name'',
       Description = ''Name of the artifact'', Required = True,
       Default = currentDirName w\<rparr>,
      \<lparr>Name = ''helmFlavour'', ConfigPath = ''helm.flavour'', Flag = ''helm-flavour'',
       Description = ''Helm chart flavour (stateful or stateless)'', Required = True,
       Default = []\<rparr>,
      \<lparr>Name = ''dockerNamespace'', ConfigPath = ''docker.namespace'',
       Flag = ''docker-namespace'', Description = ''Docker registry namespace'',
       Required = False, Default = []\<rparr>,
      \<lparr>Name = ''dockerHost'', ConfigPath = ''docker.host'', Flag = ''docker-host'',
       Description = ''Docker registry host'', Required = False,
       Default = Getenv w ''REGISTRY_HOST''\<rparr>,
      \<lparr>Name = ''kubernetesConfig'', ConfigPath = ''kubernetes.config'',
       Flag = ''kubernetes-config'', Description = ''Path to kubernetes config file'',
       Required = True, Default = defaultKubeConfigPath w\<rparr>,
      \<lparr>Name = ''kubernetesContext'', ConfigPath = ''kubernetes.context'',
       Flag = ''kubernetes-context'', Description = ''Kubernetes context to use'',
       Required = True, Default = currentKubeContext w\<rparr>,
      \<lparr>Name = ''env'', ConfigPath = ''env'', Flag = ''env'',
       Description = ''Comma-separated list of environments (e.g., staging,production)'',
       Required = False, Default = []\<rparr>,
      \<lparr>Name = ''dryRun'', ConfigPath = ''dry-run'', Flag = ''dry-run'',
       Description = ''Exercise the deployment pipeline without mutating resources'',
       Required = False, Default = ''false''\<rparr>,
      \<lparr>Name = ''runDockerBuild'', ConfigPath = ''docker.build'', Flag = ''docker-build'',
       Description = ''Whether to run Docker build'', Required = False,
       Default = ''true''\<rparr>,
      \<lparr>Name = ''autoApprove'', ConfigPath = ''auto-approve'', Flag = ''auto-approve'',
       Description = ''Skip confirmation prompts and proceed automatically'',
       Required = False, Default = ''false''\<rparr>]"

subsection \<open>The flag set of the deploy command and the configuration file\<close>

text \<open>
  The flag set of a cobra command (\<^verbatim>\<open>cmd.Flags()\<close>), as far as the program uses it: the
  flags in the order of their definition, each with its current value, its default
  and whether the command line has set it. All flags are string flags.
\<close>

record flag =
  flagValue :: string
  flagDefValue :: string
  flagChanged :: bool

type_synonym FlagSet = "(string \<times> flag) list"

text \<open>\<^verbatim>\<open>Flags().String(name, value, usage)\<close>: defines a flag; defining a name twice panics.\<close>

definition FlagSet_String :: "FlagSet \<Rightarrow> string \<Rightarrow> string \<Rightarrow> error + FlagSet" where
  "FlagSet_String fs name val =
     (case map_of fs name of
        Some fl \<Rightarrow> Inl (ErrFlagRedefined name)
      | None \<Rightarrow>
          Inr (fs @ [(name, \<lparr>flagValue = val, flagDefValue = val, flagChanged = False\<rparr>)]))"

text \<open>\<^verbatim>\<open>Flags().Set(name, value)\<close>: what parsing does for each flag of the command line.\<close>

definition FlagSet_Set :: "FlagSet \<Rightarrow> string \<Rightarrow> string \<Rightarrow> error + FlagSet" where
  "FlagSet_Set fs name val =
     (case map_of fs name of
        None \<Rightarrow> Inl (ErrNoSuchFlag name)
      | Some fl \<Rightarrow>
          Inr (map (\<lambda>(n, f). if n = name then (n, f\<lparr>flagValue := val, flagChanged := True\<rparr>)
                             else (n, f)) fs))"

text \<open>
  Parsing a command line whose flags are given as pairs of a name and a value, in the
  order of the command line; an unknown flag stops the parse with an error.
\<close>

fun FlagSet_Parse :: "FlagSet \<Rightarrow> (string \<times> string) list \<Rightarrow> error + FlagSet" where
  "FlagSet_Parse fs [] = Inr fs"
| "FlagSet_Parse fs ((name, val) # rest) =
     (case FlagSet_Set fs name val of
        Inl e \<Rightarrow> Inl e
      | Inr fs' \<Rightarrow> FlagSet_Parse fs' rest)"

text \<open>\<^verbatim>\<open>Flags().Changed(name)\<close> and \<^verbatim>\<open>Flags().GetString(name)\<close>.\<close>

definition FlagSet_Changed :: "FlagSet \<Rightarrow> string \<Rightarrow> bool" where
  "FlagSet_Changed fs name =
     (case map_of fs name of
        None \<Rightarrow> False
      | Some fl \<Rightarrow> flagChanged fl)"

definition FlagSet_GetString :: "FlagSet \<Rightarrow> string \<Rightarrow> error + string" where
  "FlagSet_GetString fs name =
     (case map_of fs name of
        None \<Rightarrow> Inl (ErrFlagNotDefined name)
      | Some fl \<Rightarrow> Inr (flagValue fl))"

text \<open>
  A value of the configuration file, as the YAML decoder hands it to viper: a string,
  a boolean, an integer, a list or a map (numbers with a fraction and timestamps are
  left out).
\<close>

datatype yaml =
    YString string
  | YBool bool
  | YInt int
  | YList "yaml list"
  | YMap "(string \<times> yaml) list"

text \<open>
  The state of viper after \<^verbatim>\<open>ReadInConfig\<close>: the value the configuration file holds at
  a path, \<open>None\<close> when the file (or the path in it) is not there.
\<close>

record viper =
  viper_Get :: "string \<Rightarrow> yaml option"

text \<open>\<^verbatim>\<open>viper.IsSet\<close>: the path has a value.\<close>

definition viper_IsSet :: "viper \<Rightarrow> string \<Rightarrow> bool" where
  "viper_IsSet v path = (viper_Get v path \<noteq> None)"

text \<open>
  \<^verbatim>\<open>viper.GetString\<close> converts the value at the path to a string and returns the empty
  string when the conversion fails: a string is returned as it is, a boolean as
  \<^verbatim>\<open>true\<close> or \<^verbatim>\<open>false\<close>, an integer in decimal; a list and a map have no conversion.
\<close>

definition showInt :: "int \<Rightarrow> string" where
  "showInt i = (if i < 0 then ''-'' @ showNat (nat (- i)) else showNat (nat i))"

fun ToString :: "yaml \<Rightarrow> string" where
  "ToString (YString s) = s"
| "ToString (YBool b) = (if b then ''true'' else ''false'')"
| "ToString (YInt i) = showInt i"
| "ToString (YList xs) = []"
| "ToString (YMap kvs) = []"

definition viper_GetString :: "viper \<Rightarrow> string \<Rightarrow> string" where
  "viper_GetString v path =
     (case viper_Get v path of
        None \<Rightarrow> []
      | Some val \<Rightarrow> ToString val)"

text \<open>
  \<^verbatim>\<open>init\<close> registers one string flag per field of the registry, with the field's
  default; the loop starts from the empty flag set.
\<close>

fun registerFlags :: "FlagSet \<Rightarrow> ConfigField list \<Rightarrow> error + FlagSet" where
  "registerFlags fs [] = Inr fs"
| "registerFlags fs (field # rest) =
     (case FlagSet_String fs (Flag field) (Default field) of
        Inl e \<Rightarrow> Inl e
      | Inr fs' \<Rightarrow> registerFlags fs' rest)"

definition init :: "world \<Rightarrow> error + FlagSet" where
  "init w = registerFlags [] (ConfigFields w)"

text \<open>The flag that \<^verbatim>\<open>init\<close> defines for a field of the registry.\<close>

definition newFlag :: "ConfigField \<Rightarrow> string \<times> flag" where
  "newFlag f =
     (Flag f, \<lparr>flagValue = Default f, flagDefValue = Default f, flagChanged = False\<rparr>)"

subsection \<open>Resolution\<close>

definition resolveFieldValue :: "FlagSet option \<Rightarrow> viper \<Rightarrow> ConfigField \<Rightarrow> string" where
  "resolveFieldValue cmd v field =
     (let fromFile =
            (if viper_IsSet v (ConfigPath field) then viper_GetString v (ConfigPath field)
             else Default field)
      in case cmd of
           None \<Rightarrow> fromFile
         | Some fs \<Rightarrow>
             if FlagSet_Changed fs (Flag field) then
               (case FlagSet_GetString fs (Flag field) of
                  Inr val \<Rightarrow> val
                | Inl err \<Rightarrow> fromFile)
             else fromFile)"

definition parseBool :: "string \<Rightarrow> bool" where
  "parseBool val = (val = ''true'' \<or> val = ''1'' \<or> ToLower val = ''yes'')"

definition parseList :: "string \<Rightarrow> char \<Rightarrow> string list" where
  "parseList val sep =
     (if val = [] then []
      else filter (\<lambda>trimmed. trimmed \<noteq> []) (map TrimSpace (Split val sep)))"

text \<open>
  \<^verbatim>\<open>setConfigField\<close> finds the member of \<^verbatim>\<open>Config\<close> whose name is the field's name with
  its first letter in upper case and assigns by the member's kind: a string as it is,
  a boolean through \<open>parseBool\<close>, the list through \<open>parseList\<close>.
\<close>

definition toUpperByte :: "char \<Rightarrow> char" where
  "toUpperByte c =
     (let n = (of_char c :: nat) in if 97 \<le> n \<and> n \<le> 122 then char_of (n - 32) else c)"

definition Title :: "string \<Rightarrow> string" where
  "Title s = (case s of [] \<Rightarrow> [] | c # cs \<Rightarrow> toUpperByte c # cs)"

definition setConfigField :: "Config \<Rightarrow> ConfigField \<Rightarrow> string \<Rightarrow> error + Config" where
  "setConfigField cfg field val =
     (let f = Title (Name field) in
      if f = ''ArtifactName'' then Inr (cfg\<lparr>ArtifactName := val\<rparr>)
      else if f = ''HelmFlavour'' then Inr (cfg\<lparr>HelmFlavour := val\<rparr>)
      else if f = ''DockerNamespace'' then Inr (cfg\<lparr>DockerNamespace := val\<rparr>)
      else if f = ''DockerHost'' then Inr (cfg\<lparr>DockerHost := val\<rparr>)
      else if f = ''KubernetesConfig'' then Inr (cfg\<lparr>KubernetesConfig := val\<rparr>)
      else if f = ''KubernetesContext'' then Inr (cfg\<lparr>KubernetesContext := val\<rparr>)
      else if f = ''Env'' then Inr (cfg\<lparr>Env := parseList val (CHR '','')\<rparr>)
      else if f = ''DryRun'' then Inr (cfg\<lparr>DryRun := parseBool val\<rparr>)
      else if f = ''RunDockerBuild'' then Inr (cfg\<lparr>RunDockerBuild := parseBool val\<rparr>)
      else if f = ''AutoApprove'' then Inr (cfg\<lparr>AutoApprove := parseBool val\<rparr>)
      else Inl (ErrFieldNotFound (Name field)))"

definition zeroConfig :: Config where
  "zeroConfig =
     \<lparr>ArtifactName = [], HelmFlavour = [], DockerNamespace = [], DockerHost = [],
      KubernetesConfig = [], KubernetesContext = [], Env = [], DryRun = False,
      RunDockerBuild = False, AutoApprove = False\<rparr>"

fun loadFields :: "FlagSet option \<Rightarrow> viper \<Rightarrow> Config \<Rightarrow> ConfigField list \<Rightarrow> error + Config" where
  "loadFields cmd v cfg [] = Inr cfg"
| "loadFields cmd v cfg (field # rest) =
     (case setConfigField cfg field (resolveFieldValue cmd v field) of
        Inl err \<Rightarrow> Inl (Wrap (''failed to set config field '' @ Name field) err)
      | Inr cfg' \<Rightarrow> loadFields cmd v cfg' rest)"

definition LoadConfig :: "world \<Rightarrow> FlagSet option \<Rightarrow> viper \<Rightarrow> error + Config" where
  "LoadConfig w cmd v = loadFields cmd v zeroConfig (ConfigFields w)"

subsection \<open>Derived values\<close>

definition ImageRepository :: "Config \<Rightarrow> error + string" where
  "ImageRepository c =
     (if DockerHost c = [] \<or> DockerNamespace c = [] \<or> ArtifactName c = []
      then Inl ErrImageRepository
      else Inr (DockerHost c @ ''/'' @ DockerNamespace c @ ''/'' @ ArtifactName c))"

definition ImageTag :: "Config \<Rightarrow> error + string" where
  "ImageTag c =
     (case ImageRepository c of
        Inl err \<Rightarrow> Inl err
      | Inr repo \<Rightarrow> Inr (repo @ '':latest''))"

definition ShouldRunDockerBuild :: "world \<Rightarrow> Config \<Rightarrow> bool" where
  "ShouldRunDockerBuild w c =
     (let hasDockerfile = (Stat w ''Dockerfile'' = StatOk)
      in hasDockerfile \<and> RunDockerBuild c)"

definition ChartPath :: "Config \<Rightarrow> string" where
  "ChartPath c = Join [''/usr/local/share/dockwright/charts'', HelmFlavour c]"

text \<open>
  \<^verbatim>\<open>LogSummary\<close> prints one line per member of \<^verbatim>\<open>Config\<close>, in the order of their
  declaration: the name padded to twenty columns and the value in a colour chosen by
  the member's kind.
\<close>

definition padRight :: "nat \<Rightarrow> string \<Rightarrow> string" where
  "padRight n s = s @ replicate (n - length s) (CHR '' '')"

definition colourString :: "string \<Rightarrow> string" where
  "colourString val = esc @ ''[32m'' @ val @ esc @ ''[0m''"

definition colourBool :: "bool \<Rightarrow> string" where
  "colourBool b = esc @ ''[33m'' @ (if b then ''true'' else ''false'') @ esc @ ''[0m''"

definition colourSlice :: "string list \<Rightarrow> string" where
  "colourSlice xs = esc @ ''[36m'' @ ''['' @ joinStrings xs '' '' @ '']'' @ esc @ ''[0m''"

definition summaryLine :: "string \<Rightarrow> string \<Rightarrow> event" where
  "summaryLine fieldName colouredValue =
     LogInfo (''   '' @ padRight 20 fieldName @ '' | '' @ colouredValue)"

definition LogSummary :: "Config \<Rightarrow> event list" where
  "LogSummary c =
     [LogInfo (hammerAndWrench @ ''  Configuration loaded:''),
      LogInfo ''   Field                | Value'',
      LogInfo ''   ---------------------|----------------'',
      summaryLine ''ArtifactName'' (colourString (ArtifactName c)),
      summaryLine ''HelmFlavour'' (colourString (HelmFlavour c)),
      summaryLine ''DockerNamespace'' (colourString (DockerNamespace c)),
      summaryLine ''DockerHost'' (colourString (DockerHost c)),
      summaryLine ''KubernetesConfig'' (colourString (KubernetesConfig c)),
      summaryLine ''KubernetesContext'' (colourString (KubernetesContext c)),
      summaryLine ''Env'' (colourSlice (Env c)),
      summaryLine ''DryRun'' (colourBool (DryRun c)),
      summaryLine ''RunDockerBuild'' (colourBool (RunDockerBuild c)),
      summaryLine ''AutoApprove'' (colourBool (AutoApprove c))]"

section \<open>Validator\<close>

definition getFieldValue :: "Config \<Rightarrow> string \<Rightarrow> string" where
  "getFieldValue cfg name =
     (if name = ''artifactName'' then ArtifactName cfg
      else if name = ''helmFlavour'' then HelmFlavour cfg
      else if name = ''dockerNamespace'' then DockerNamespace cfg
      else if name = ''dockerHost'' then DockerHost cfg
      else if name = ''kubernetesConfig'' then KubernetesConfig cfg
      else if name = ''kubernetesContext'' then KubernetesContext cfg
      else if name = ''env'' then (if length (Env cfg) > 0 then ''set'' else [])
      else [])"

fun requiredFieldsSet :: "Config \<Rightarrow> ConfigField list \<Rightarrow> error option" where
  "requiredFieldsSet cfg [] = None"
| "requiredFieldsSet cfg (field # rest) =
     (if \<not> Required field then requiredFieldsSet cfg rest
      else if getFieldValue cfg (Name field) = []
        then Some (ErrRequiredField (Name field) (Flag field))
      else requiredFieldsSet cfg rest)"

definition validateConfig :: "world \<Rightarrow> Config \<Rightarrow> error option" where
  "validateConfig w cfg = requiredFieldsSet cfg (ConfigFields w)"

definition validateHelmFlavour :: "Config \<Rightarrow> error option" where
  "validateHelmFlavour cfg =
     (let flavour = HelmFlavour cfg
      in if flavour \<noteq> ''stateful'' \<and> flavour \<noteq> ''stateless''
         then Some (ErrInvalidFlavour flavour) else None)"

fun envVarsSet :: "world \<Rightarrow> string list \<Rightarrow> error option" where
  "envVarsSet w [] = None"
| "envVarsSet w (envVar # rest) =
     (if Getenv w envVar = [] then Some (ErrEnvVarNotSet envVar) else envVarsSet w rest)"

definition validateEnvVars :: "world \<Rightarrow> error option" where
  "validateEnvVars w = envVarsSet w [''REGISTRY_USERNAME'', ''REGISTRY_PASSWORD'']"

fun toolsFound :: "world \<Rightarrow> string list \<Rightarrow> error option" where
  "toolsFound w [] = None"
| "toolsFound w (tool # rest) =
     (if \<not> LookPath w tool then Some (ErrToolNotFound tool) else toolsFound w rest)"

definition validateTools :: "world \<Rightarrow> error option \<times> event list" where
  "validateTools w =
     (case toolsFound w [''docker'', ''helm''] of
        Some err \<Rightarrow> (Some err, [])
      | None \<Rightarrow>
          (case runCommand w [''docker'', ''info''] of
             (Some err, ev) \<Rightarrow> (Some ErrDockerDaemon, ev)
           | (None, ev) \<Rightarrow> (None, ev)))"

fun envValueFilesExist :: "world \<Rightarrow> string list \<Rightarrow> error option" where
  "envValueFilesExist w [] = None"
| "envValueFilesExist w (env # rest) =
     (let path = Join [''.dockwright'', ''helm'', env @ ''.values.yaml'']
      in if Stat w path = StatNotExist then Some (ErrValidatorValuesFile path)
         else envValueFilesExist w rest)"

definition validateEnvValueFiles :: "world \<Rightarrow> Config \<Rightarrow> error option" where
  "validateEnvValueFiles w cfg = envValueFilesExist w (Env cfg)"

definition validateKubeContext :: "world \<Rightarrow> Config \<Rightarrow> error option" where
  "validateKubeContext w cfg =
     (if KubernetesContext cfg = [] then None
      else (case ReadFile w (KubernetesConfig cfg) of
              None \<Rightarrow> Some (ErrReadKubeconfig (KubernetesConfig cfg))
            | Some content \<Rightarrow>
                (case yamlContextNames w content of
                   None \<Rightarrow> Some (ErrParseKubeconfig (KubernetesConfig cfg))
                 | Some names \<Rightarrow>
                     if KubernetesContext cfg \<in> set names then None
                     else Some (ErrContextNotFound (KubernetesContext cfg)
                                  (KubernetesConfig cfg)))))"

text \<open>
  The loop of \<^verbatim>\<open>ValidateAll\<close>: a check is a name, an icon and a function that is called
  when the loop reaches it; its result is appended, and the first error ends the loop.
\<close>

type_synonym check = "string \<times> string \<times> (unit \<Rightarrow> error option \<times> event list)"

definition checkResult :: "string \<Rightarrow> string \<Rightarrow> error option \<Rightarrow> ValidationResult" where
  "checkResult name icon err =
     \<lparr>ValidationResult.Name = name, Icon = icon,
      Message = icon @ '' Validated - '' @ name, Err = err\<rparr>"

fun runChecks ::
  "check list \<Rightarrow> ValidationResult list \<Rightarrow> (ValidationResult list \<times> error option) \<times> event list"
where
  "runChecks [] results = ((results, None), [])"
| "runChecks ((name, icon, fn) # rest) results =
     (case fn () of
        (err, ev) \<Rightarrow>
          (let result = checkResult name icon err;
               results' = results @ [result]
           in if err \<noteq> None then ((results', err), ev)
              else (case runChecks rest results' of
                      (r, ev') \<Rightarrow> (r, ev @ ev'))))"

definition checks :: "world \<Rightarrow> Config \<Rightarrow> check list" where
  "checks w cfg =
     [(''Configuration'', heavyCheck, \<lambda>u. (validateConfig w cfg, [])),
      (''Helm flavour'', helmSymbol @ '' '', \<lambda>u. (validateHelmFlavour cfg, [])),
      (''Environment variables'', lockWithKey, \<lambda>u. (validateEnvVars w, [])),
      (''Environment values files'', pageFacingUp, \<lambda>u. (validateEnvValueFiles w cfg, [])),
      (''Kubernetes context'', wheelOfDharma @ '' '', \<lambda>u. (validateKubeContext w cfg, [])),
      (''System tools'', hammerAndWrench @ '' '', \<lambda>u. validateTools w)]"

definition ValidateAll ::
  "world \<Rightarrow> Config \<Rightarrow> (ValidationResult list \<times> error option) \<times> event list"
where
  "ValidateAll w cfg = runChecks (checks w cfg) []"

section \<open>Image workflow\<close>

definition build :: "world \<Rightarrow> Config \<Rightarrow> string \<Rightarrow> error option \<times> event list" where
  "build w cfg imageTag =
     (let ev = [LogInfo (hammer @ '' Building Docker image: '' @ imageTag),
                LogInfo (''   Build context: '' @ ''.'')]
      in if DryRun cfg then
           (None, ev @ [LogInfo (''   '' @ testTube @ '' [DRY-RUN] Would run: docker build -t ''
                                  @ imageTag @ '' .'')])
         else (case runCommand w [''docker'', ''build'', ''-t'', imageTag, ''.''] of
                 (Some err, ev') \<Rightarrow> (Some err, ev @ ev')
               | (None, ev') \<Rightarrow>
                   (None, ev @ ev' @
                      [LogInfo (checkMark @ ''  Successfully built Docker image: '' @ imageTag)])))"

definition login :: "world \<Rightarrow> Config \<Rightarrow> error option \<times> event list" where
  "login w cfg =
     (let username = Getenv w ''REGISTRY_USERNAME'';
          password = Getenv w ''REGISTRY_PASSWORD''
      in if username = [] \<or> password = [] then (Some ErrRegistryCredentials, [])
         else
           (let ev = [LogInfo (lockWithKey @ '' Authenticating with Docker registry: ''
                                @ DockerHost cfg),
                      LogInfo (''   Username: '' @ username)]
            in if DryRun cfg then
                 (None, ev @ [LogInfo (''   '' @ testTube @ '' [DRY-RUN] Would run: docker login ''
                                        @ DockerHost cfg @ '' -u '' @ username)])
               else
                 (let argv = [''docker'', ''login'', DockerHost cfg, ''-u'', username,
                              ''--password-stdin'']
                  in if \<not> stdinPipeOk w then
                       (Some (Wrap ''failed to create stdin pipe'' ErrStdinPipe), ev)
                     else if procOutcome w argv = StartError then
                       (Some (Wrap ''failed to start docker login'' (ErrProcess argv StartError)),
                        ev @ [Exec argv])
                     else if \<not> stdinWriteOk w then
                       (Some (Wrap ''failed to write password'' ErrStdinWrite), ev @ [Exec argv])
                     else if procOutcome w argv \<noteq> ExitSuccess then
                       (Some (Wrap ''docker login failed'' (ErrProcess argv (procOutcome w argv))),
                        ev @ [Exec argv, WriteStdin (password @ [CHR 0x0A])])
                     else
                       (None,
                        ev @ [Exec argv, WriteStdin (password @ [CHR 0x0A]),
                              LogInfo (checkMark @ ''  Successfully authenticated with registry: ''
                                       @ DockerHost cfg)]))))"

definition push :: "world \<Rightarrow> Config \<Rightarrow> string \<Rightarrow> error option \<times> event list" where
  "push w cfg imageTag =
     (let ev = [LogInfo (outboxTray @ '' Pushing Docker image: '' @ imageTag),
                LogInfo (''   Target registry: '' @ DockerHost cfg)]
      in if DryRun cfg then
           (None, ev @ [LogInfo (''   '' @ testTube @ '' [DRY-RUN] Would run: docker push ''
                                  @ imageTag)])
         else (case runCommand w [''docker'', ''push'', imageTag] of
                 (Some err, ev') \<Rightarrow> (Some err, ev @ ev')
               | (None, ev') \<Rightarrow>
                   (None, ev @ ev' @
                      [LogInfo (checkMark @ ''  Successfully pushed image to registry: ''
                                @ imageTag)])))"

definition DockerRunner_Run :: "world \<Rightarrow> Config \<Rightarrow> error option \<times> event list" where
  "DockerRunner_Run w cfg =
     (if \<not> ShouldRunDockerBuild w cfg then
        (None,
         [LogInfo (nextTrack @ ''  Skipping Docker workflow. Either docker build (--docker-build) flag is disabled or Dockerfile is missing.'')])
      else
        (case ImageTag cfg of
           Inl err \<Rightarrow> (Some err, [])
         | Inr imageTag \<Rightarrow>
             (case build w cfg imageTag of
                (Some err, ev1) \<Rightarrow> (Some (Wrap ''docker build failed'' err), ev1)
              | (None, ev1) \<Rightarrow>
                  (case login w cfg of
                     (Some err, ev2) \<Rightarrow> (Some (Wrap ''docker login failed'' err), ev1 @ ev2)
                   | (None, ev2) \<Rightarrow>
                       (case push w cfg imageTag of
                          (Some err, ev3) \<Rightarrow>
                            (Some (Wrap ''docker push failed'' err), ev1 @ ev2 @ ev3)
                        | (None, ev3) \<Rightarrow> (None, ev1 @ ev2 @ ev3))))))"

section \<open>Deployment workflow\<close>

definition validateChartExists :: "world \<Rightarrow> string \<Rightarrow> error option \<times> event list" where
  "validateChartExists w chartPath =
     (if Stat w chartPath = StatNotExist then (Some (ErrChartNotFound chartPath), [])
      else (None, [LogInfo (heavyCheck @ '' Helm chart found at: '' @ chartPath)]))"

fun collectEnvValuesFiles ::
  "world \<Rightarrow> string list \<Rightarrow> string list \<Rightarrow> (error + string list) \<times> event list"
where
  "collectEnvValuesFiles w [] files = (Inr files, [])"
| "collectEnvValuesFiles w (env # rest) files =
     (let envValues = Join [''.dockwright'', ''helm'', env @ ''.values.yaml'']
      in if Stat w envValues = StatNotExist then (Inl (ErrValuesFileNotFound envValues), [])
         else (case collectEnvValuesFiles w rest (files @ [envValues]) of
                 (r, ev) \<Rightarrow>
                   (r, LogInfo (pageFacingUp @ '' Found environment values file: '' @ envValues)
                       # ev)))"

definition collectValuesFiles :: "world \<Rightarrow> Config \<Rightarrow> (error + string list) \<times> event list" where
  "collectValuesFiles w cfg =
     (let baseValues = Join [''.dockwright'', ''helm'', ''values.yaml''];
          (files, ev0) =
            (if Stat w baseValues = StatOk
             then ([baseValues],
                   [LogInfo (pageFacingUp @ '' Found base values file: '' @ baseValues)])
             else ([], []))
      in case collectEnvValuesFiles w (Env cfg) files of
           (Inl err, ev) \<Rightarrow> (Inl err, ev0 @ ev)
         | (Inr files', ev) \<Rightarrow>
             (Inr files',
              ev0 @ ev @
                [LogInfo (heavyCheck @ '' Collected '' @ showNat (length files')
                          @ '' values file(s) for deployment'')]))"

definition buildArgs :: "Config \<Rightarrow> string \<Rightarrow> string list \<Rightarrow> string list" where
  "buildArgs cfg chartPath valuesFiles =
     (let args = [''upgrade'', ''--install'', ArtifactName cfg, chartPath,
                  ''--kubeconfig'', KubernetesConfig cfg];
          args = (if KubernetesContext cfg \<noteq> []
                  then args @ [''--kube-context'', KubernetesContext cfg] else args)
      in foldl (\<lambda>args f. args @ [''--values'', f]) args valuesFiles)"

definition buildImageArgs :: "world \<Rightarrow> Config \<Rightarrow> (error + string list) \<times> event list" where
  "buildImageArgs w cfg =
     (if ShouldRunDockerBuild w cfg then
        (case ImageRepository cfg of
           Inl err \<Rightarrow> (Inl err, [])
         | Inr imageRepo \<Rightarrow>
             (Inr [''--set'', ''image.repository='' @ imageRepo, ''--set'', ''image.tag=latest''],
              [LogInfo (syringe @ '' Injecting image configuration into Helm deployment''),
               LogInfo (''   Repository: '' @ imageRepo),
               LogInfo ''   Tag: latest'']))
      else (Inr [], []))"

fun logArgLines :: "string list \<Rightarrow> event list" where
  "logArgLines [] = []"
| "logArgLines [arg] = [LogInfo (''     '' @ arg)]"
| "logArgLines (arg # next # rest) =
     (if HasPrefix arg ''--'' \<and> \<not> HasPrefix next ''--''
      then LogInfo (''     '' @ esc @ ''[32m'' @ arg @ esc @ ''[0m'' @ '' = '' @ next)
           # logArgLines rest
      else LogInfo (''     '' @ arg) # logArgLines (next # rest))"

definition logArgs :: "string list \<Rightarrow> event list" where
  "logArgs args = LogInfo ''   Arguments:'' # logArgLines args"

definition execute :: "world \<Rightarrow> Config \<Rightarrow> string list \<Rightarrow> error option \<times> event list" where
  "execute w cfg args =
     (if DryRun cfg then
        (let args = args @ [''--dry-run'']
         in (None,
             LogInfo (''   '' @ testTube @ '' [DRY-RUN] Would run: helm'') # logArgs args))
      else
        (let ev = [LogInfo (rocket @ '' Executing Helm deployment for artifact: ''
                            @ ArtifactName cfg),
                   LogInfo (''   Kubeconfig: '' @ KubernetesConfig cfg)]
                  @ (if KubernetesContext cfg \<noteq> []
                     then [LogInfo (''   Context: '' @ KubernetesContext cfg)] else [])
                  @ [LogInfo ''   Running: helm'']
                  @ logArgs args
         in case runCommand w (''helm'' # args) of
              (Some err, ev') \<Rightarrow> (Some (Wrap ''helm deployment failed'' err), ev @ ev')
            | (None, ev') \<Rightarrow>
                (None,
                 ev @ ev' @
                   [LogInfo (checkMark @ ''  Successfully deployed '' @ ArtifactName cfg
                             @ '' with Helm'')])))"

definition HelmRunner_Run :: "world \<Rightarrow> Config \<Rightarrow> error option \<times> event list" where
  "HelmRunner_Run w cfg =
     (let chartPath = ChartPath cfg
      in case validateChartExists w chartPath of
           (Some err, ev1) \<Rightarrow> (Some err, ev1)
         | (None, ev1) \<Rightarrow>
             (case collectValuesFiles w cfg of
                (Inl err, ev2) \<Rightarrow>
                  (Some (Wrap ''failed to collect values files'' err), ev1 @ ev2)
              | (Inr valuesFiles, ev2) \<Rightarrow>
                  (let args = buildArgs cfg chartPath valuesFiles
                   in case buildImageArgs w cfg of
                        (Inl err, ev3) \<Rightarrow> (Some err, ev1 @ ev2 @ ev3)
                      | (Inr imageArgs, ev3) \<Rightarrow>
                          (let args = args @ imageArgs
                           in case execute w cfg args of
                                (r, ev4) \<Rightarrow> (r, ev1 @ ev2 @ ev3 @ ev4)))))"

text \<open>
  Names for stating the properties of the deployment workflow: the paths of the base
  values file and of the values file of an environment, and \<open>deployArgs\<close>, the steps of
  \<^verbatim>\<open>Run\<close> before \<^verbatim>\<open>execute\<close>, which end in the argument vector handed to \<^verbatim>\<open>execute\<close> or
  in the error that \<^verbatim>\<open>Run\<close> returns (the lemma \<open>HelmRunner_Run_deployArgs\<close> below).
\<close>

definition baseValuesPath :: string where
  "baseValuesPath = Join [''.dockwright'', ''helm'', ''values.yaml'']"

definition envValuesPath :: "string \<Rightarrow> string" where
  "envValuesPath env = Join [''.dockwright'', ''helm'', env @ ''.values.yaml'']"

definition deployArgs :: "world \<Rightarrow> Config \<Rightarrow> (error + string list) \<times> event list" where
  "deployArgs w cfg =
     (let chartPath = ChartPath cfg
      in case validateChartExists w chartPath of
           (Some err, ev1) \<Rightarrow> (Inl err, ev1)
         | (None, ev1) \<Rightarrow>
             (case collectValuesFiles w cfg of
                (Inl err, ev2) \<Rightarrow>
                  (Inl (Wrap ''failed to collect values files'' err), ev1 @ ev2)
              | (Inr valuesFiles, ev2) \<Rightarrow>
                  (case buildImageArgs w cfg of
                     (Inl err, ev3) \<Rightarrow> (Inl err, ev1 @ ev2 @ ev3)
                   | (Inr imageArgs, ev3) \<Rightarrow>
                       (Inr (buildArgs cfg chartPath valuesFiles @ imageArgs),
                        ev1 @ ev2 @ ev3))))"

section \<open>Pipeline\<close>

definition logSection :: "nat \<Rightarrow> string \<Rightarrow> string \<Rightarrow> event list" where
  "logSection num title icon =
     [LogInfo [],
      LogInfo (concat (replicate 63 boxDouble)),
      (if num > 0 then LogInfo (icon @ ''  '' @ showNat num @ ''. '' @ title)
       else LogInfo (icon @ '' '' @ title)),
      LogInfo (concat (replicate 63 boxDouble))]"

text \<open>
  The loop of \<^verbatim>\<open>runDeploy\<close> over the validation results: the message of a passed
  check is logged; at a failed one the error of \<^verbatim>\<open>ValidateAll\<close> is returned.
\<close>

fun reportResults :: "ValidationResult list \<Rightarrow> error option \<Rightarrow> bool \<times> event list" where
  "reportResults [] err = (False, [])"
| "reportResults (r # rs) err =
     (if Err r \<noteq> None
      then (True, [LogError (crossMark @ '' Validation error in '' @ ValidationResult.Name r)])
      else (case reportResults rs err of
              (returned, ev) \<Rightarrow> (returned, LogInfo (Message r) # ev)))"

definition runDeploy :: "world \<Rightarrow> FlagSet \<Rightarrow> viper \<Rightarrow> error option \<times> event list" where
  "runDeploy w cmd v =
     (let ev1 = logSection 1 ''CONFIGURATION'' gear
      in case LoadConfig w (Some cmd) v of
           Inl err \<Rightarrow> (Some (Wrap (crossMark @ '' failed to load configuration'') err), ev1)
         | Inr cfg \<Rightarrow>
             (let ev2 = ev1 @ LogSummary cfg;
                  confirm = (\<not> AutoApprove cfg \<and> \<not> DryRun cfg);
                  ev3 = ev2 @
                    (if confirm
                     then [Print ''Please confirm the configuration above. Press Enter to proceed with deployment: '']
                     else [])
              in if confirm \<and> \<not> readLineOk w
                 then (Some (Wrap ''failed to read user input'' ErrReadLine), ev3)
                 else
                   (let ev4 = ev3 @ logSection 2 ''VALIDATION'' checkMark
                    in case ValidateAll w cfg of
                         ((results, err), ev5) \<Rightarrow>
                           (case reportResults results err of
                              (returned, ev6) \<Rightarrow>
                                if returned \<or> err \<noteq> None then (err, ev4 @ ev5 @ ev6)
                                else
                                  (let ev7 = ev4 @ ev5 @ ev6
                                         @ logSection 3 ''DOCKER WORKFLOW'' whale
                                   in case DockerRunner_Run w cfg of
                                        (Some err, ev8) \<Rightarrow>
                                          (Some (Wrap (crossMark @ '' docker workflow failed'') err),
                                           ev7 @ ev8)
                                      | (None, ev8) \<Rightarrow>
                                          (let ev9 = ev7 @ ev8
                                                 @ logSection 4 ''HELM WORKFLOW'' helmSymbol
                                           in case HelmRunner_Run w cfg of
                                                (Some err, ev10) \<Rightarrow>
                                                  (Some (Wrap (crossMark @ '' helm workflow failed'')
                                                           err),
                                                   ev9 @ ev10)
                                              | (None, ev10) \<Rightarrow>
                                                  (None,
                                                   ev9 @ ev10
                                                     @ logSection 0 ''DEPLOYMENT COMPLETE''
                                                         partyPopper)))))))"

section \<open>Example environments\<close>

text \<open>
  A service directory \<^verbatim>\<open>/home/dev/svc\<close> with a Dockerfile, a base values file and the
  values files of two environments, the chart of the stateless flavour installed, a
  kubeconfig with two contexts, both tools installed, and every command succeeding.
\<close>

definition exampleWorld :: world where
  "exampleWorld =
     \<lparr>Getenv = (\<lambda>n. if n = ''REGISTRY_HOST'' then ''reg.example.com''
                    else if n = ''REGISTRY_USERNAME'' then ''ci''
                    else if n = ''REGISTRY_PASSWORD'' then ''s3cret''
                    else []),
      Getwd = Some ''/home/dev/svc'',
      UserHomeDir = Some ''/home/dev'',
      Stat = (\<lambda>p. if p = ''Dockerfile''
                      \<or> p = ''/usr/local/share/dockwright/charts/stateless''
                      \<or> p = ''.dockwright/helm/values.yaml''
                      \<or> p = ''.dockwright/helm/staging.values.yaml''
                      \<or> p = ''.dockwright/helm/production.values.yaml''
                  then StatOk else StatNotExist),
      ReadFile = (\<lambda>p. if p = ''/home/dev/.kube/config'' then Some ''kubeconfig'' else None),
      yamlCurrentContext = (\<lambda>c. if c = ''kubeconfig'' then Some ''dev-cluster'' else None),
      yamlContextNames =
        (\<lambda>c. if c = ''kubeconfig'' then Some [''dev-cluster'', ''prod-cluster''] else None),
      LookPath = (\<lambda>t. t = ''docker'' \<or> t = ''helm''),
      procOutcome = (\<lambda>argv. ExitSuccess),
      stdinPipeOk = True,
      stdinWriteOk = True,
      readLineOk = True\<rparr>"

definition exampleConfig :: Config where
  "exampleConfig =
     \<lparr>ArtifactName = ''svc'', HelmFlavour = ''stateless'', DockerNamespace = ''acme'',
      DockerHost = ''reg.example.com'', KubernetesConfig = ''/home/dev/.kube/config'',
      KubernetesContext = ''dev-cluster'', Env = [''staging'', ''production''],
      DryRun = False, RunDockerBuild = True, AutoApprove = True\<rparr>"

text \<open>A configuration file that sets the flavour and asks for a dry run.\<close>

definition exampleViper :: viper where
  "exampleViper =
     \<lparr>viper_Get = (\<lambda>p. if p = ''helm.flavour'' then Some (YString ''stateless'')
                       else if p = ''dry-run'' then Some (YBool True) else None)\<rparr>"


text \<open>
  A configuration file in the format of the README, with the environments as a list:
  \<^verbatim>\<open>helm: {flavour: stateless}\<close>, \<^verbatim>\<open>docker: {namespace: acme}\<close>, \<^verbatim>\<open>auto-approve: true\<close>,
  \<^verbatim>\<open>env: [staging, production]\<close>.
\<close>

definition listViper :: viper where
  "listViper =
     \<lparr>viper_Get = (\<lambda>p. if p = ''helm.flavour'' then Some (YString ''stateless'')
                       else if p = ''docker.namespace'' then Some (YString ''acme'')
                       else if p = ''auto-approve'' then Some (YBool True)
                       else if p = ''env''
                         then Some (YList [YString ''staging'', YString ''production''])
                       else None)\<rparr>"


text \<open>The argument vector of the deploy command for the example configuration.\<close>

definition exampleVector :: "string list" where
  "exampleVector =
     [''upgrade'', ''--install'', ''svc'', ''/usr/local/share/dockwright/charts/stateless'',
      ''--kubeconfig'', ''/home/dev/.kube/config'', ''--kube-context'', ''dev-cluster'',
      ''--values'', ''.dockwright/helm/values.yaml'',
      ''--values'', ''.dockwright/helm/staging.values.yaml'',
      ''--values'', ''.dockwright/helm/production.values.yaml'',
      ''--set'', ''image.repository=reg.example.com/acme/svc'',
      ''--set'', ''image.tag=latest'']"

section \<open>Resolution of the configuration\<close>

lemma flag_names:
  "map Flag (ConfigFields w) =
     [''artifact-name'', ''helm-flavour'', ''docker-namespace'', ''docker-host'',
      ''kubernetes-config'', ''kubernetes-context'', ''env'', ''dry-run'', ''docker-build'',
      ''auto-approve'']"
  by (simp add: ConfigFields_def)

lemma registerFlags_result:
  "distinct (map fst fs @ map Flag fs') \<Longrightarrow>
   registerFlags fs fs' = Inr (fs @ map newFlag fs')"
proof (induction fs' arbitrary: fs)
  case Nil
  then show ?case by simp
next
  case (Cons f rest)
  from Cons.prems have "Flag f \<notin> fst ` set fs" by auto
  then have "map_of fs (Flag f) = None" by (simp add: map_of_eq_None_iff)
  then have step: "FlagSet_String fs (Flag f) (Default f) = Inr (fs @ [newFlag f])"
    by (simp add: FlagSet_String_def newFlag_def)
  from Cons.prems have "distinct (map fst (fs @ [newFlag f]) @ map Flag rest)"
    by (auto simp: newFlag_def)
  from Cons.IH[OF this] step show ?case by simp
qed

text \<open>Registration never panics: the flag names of the registry are distinct.\<close>

lemma init_result: "init w = Inr (map newFlag (ConfigFields w))"
  unfolding init_def
  by (rule registerFlags_result[of "[]", simplified]) (simp add: flag_names)

lemma map_of_upd:
  "map_of (map (\<lambda>(n, f). if n = name then (n, g f) else (n, f)) fs) k =
     (if k = name then map_option g (map_of fs k) else map_of fs k)"
  by (induction fs) auto

lemma Set_map_of:
  "FlagSet_Set fs name val = Inr fs' \<Longrightarrow>
   map_of fs' n =
     (if n = name
      then map_option (\<lambda>fl. fl\<lparr>flagValue := val, flagChanged := True\<rparr>) (map_of fs n)
      else map_of fs n)"
  by (auto simp: FlagSet_Set_def map_of_upd split: option.splits)

text \<open>
  After a parse, a flag the command line names holds the last value given for it and
  is marked as changed; every other flag is as it was.
\<close>

lemma Parse_map_of:
  "FlagSet_Parse fs0 args = Inr fs \<Longrightarrow>
   map_of fs n =
     (case map_of (rev args) n of
        None \<Rightarrow> map_of fs0 n
      | Some val \<Rightarrow>
          map_option (\<lambda>fl. fl\<lparr>flagValue := val, flagChanged := True\<rparr>) (map_of fs0 n))"
proof (induction args arbitrary: fs0)
  case Nil
  then show ?case by simp
next
  case (Cons a rest)
  obtain name val where a: "a = (name, val)" by (cases a)
  with Cons.prems obtain fs1 where s: "FlagSet_Set fs0 name val = Inr fs1"
    and p: "FlagSet_Parse fs1 rest = Inr fs"
    by (auto split: sum.splits)
  show ?case
    using Cons.IH[OF p] Set_map_of[OF s, of n] a
    by (cases "map_of fs0 n") (auto simp: map_add_def split: option.splits)
qed

text \<open>
  The three tiers. The flag set is the one \<^verbatim>\<open>init\<close> registers, after parsing a command
  line \<open>args\<close>. For every field of the registry the resolved value is: the value the
  command line gives for the field's flag (the last one, if it names the flag more than
  once) whenever the command line names the flag, whatever that value is; otherwise
  the string \<^verbatim>\<open>viper.GetString\<close> returns for the field's path whenever the configuration
  file sets the path; otherwise the field's default. The default string the flag itself
  holds is never returned for a flag the command line does not name. The registry may
  be read in another environment (\<open>w'\<close>) than the one \<^verbatim>\<open>init\<close> ran in: the defaults may
  differ, the flags do not.
\<close>

lemma resolve_precedence:
  assumes i: "init w = Inr fs0"
    and p: "FlagSet_Parse fs0 args = Inr fs"
    and f: "field \<in> set (ConfigFields w')"
  shows "resolveFieldValue (Some fs) v field =
           (case map_of (rev args) (Flag field) of
              Some val \<Rightarrow> val
            | None \<Rightarrow>
                if viper_IsSet v (ConfigPath field) then viper_GetString v (ConfigPath field)
                else Default field)"
proof -
  from f have "Flag field \<in> set (map Flag (ConfigFields w'))" by simp
  then have "Flag field \<in> set (map Flag (ConfigFields w))" by (simp add: flag_names)
  then obtain g where g: "g \<in> set (ConfigFields w)" "Flag g = Flag field" by auto
  have d: "distinct (map fst (map newFlag (ConfigFields w)))"
    using flag_names[of w] by (simp add: comp_def newFlag_def)
  from g have "newFlag g \<in> set (map newFlag (ConfigFields w))" by simp
  with d have "map_of (map newFlag (ConfigFields w)) (Flag field) = Some (snd (newFlag g))"
    using g(2) by (metis map_of_eq_Some_iff newFlag_def prod.collapse fst_conv)
  with i have m0: "map_of fs0 (Flag field) = Some (snd (newFlag g))"
    by (simp add: init_result)
  show ?thesis
    using Parse_map_of[OF p, of "Flag field"] m0
    by (auto simp: resolveFieldValue_def FlagSet_Changed_def FlagSet_GetString_def
        newFlag_def Let_def split: option.splits)
qed

text \<open>
  The file tier by the kind of the value: for a flag the command line does not name,
  a string, a boolean or an integer in the file resolves to its text; a list or a map
  in the file resolves to the empty string, so the file's value is lost.
\<close>

lemma resolve_file_value:
  assumes i: "init w = Inr fs0"
    and p: "FlagSet_Parse fs0 args = Inr fs"
    and f: "field \<in> set (ConfigFields w')"
    and n: "map_of (rev args) (Flag field) = None"
    and g: "viper_Get v (ConfigPath field) = Some val"
  shows "resolveFieldValue (Some fs) v field =
           (case val of
              YString s \<Rightarrow> s
            | YBool b \<Rightarrow> if b then ''true'' else ''false''
            | YInt k \<Rightarrow> showInt k
            | YList xs \<Rightarrow> []
            | YMap kvs \<Rightarrow> [])"
  using resolve_precedence[OF i p f, of v] n g
  by (cases val) (simp_all add: viper_IsSet_def viper_GetString_def)

text \<open>
  An instance of the three tiers: the command line is \<^verbatim>\<open>--dry-run=false --env=staging\<close>
  and the file sets \<^verbatim>\<open>helm.flavour\<close> to \<^verbatim>\<open>stateless\<close> and \<^verbatim>\<open>dry-run\<close> to \<^verbatim>\<open>true\<close>. The dry-run
  field (the eighth of the registry) resolves to the command line's \<^verbatim>\<open>false\<close>, which is
  also its default; the flavour (the second) resolves to the file's value although its
  flag holds the empty default; auto-approve (the tenth) resolves to its default.
\<close>

lemma example_fields:
  "ConfigFields exampleWorld ! 7 \<in> set (ConfigFields exampleWorld)"
  "ConfigFields exampleWorld ! 1 \<in> set (ConfigFields exampleWorld)"
  "ConfigFields exampleWorld ! 9 \<in> set (ConfigFields exampleWorld)"
  by (simp_all add: ConfigFields_def)

lemma resolve_precedence_example:
  "(case init exampleWorld of
      Inl e \<Rightarrow> False
    | Inr fs0 \<Rightarrow>
        (case FlagSet_Parse fs0 [(''dry-run'', ''false''), (''env'', ''staging'')] of
           Inl e \<Rightarrow> False
         | Inr fs \<Rightarrow>
             resolveFieldValue (Some fs) exampleViper (ConfigFields exampleWorld ! 7) = ''false''
             \<and> resolveFieldValue (Some fs) exampleViper (ConfigFields exampleWorld ! 1)
                 = ''stateless''
             \<and> FlagSet_GetString fs ''helm-flavour'' = Inr []
             \<and> resolveFieldValue (Some fs) exampleViper (ConfigFields exampleWorld ! 9)
                 = ''false''))"
proof -
  let ?args = "[(''dry-run'', ''false''), (''env'', ''staging'')]"
  have i: "init exampleWorld = Inr (map newFlag (ConfigFields exampleWorld))"
    by (rule init_result)
  have "\<exists>fs. FlagSet_Parse (map newFlag (ConfigFields exampleWorld)) ?args = Inr fs"
    by (simp add: ConfigFields_def newFlag_def FlagSet_Set_def)
  then obtain fs where p: "FlagSet_Parse (map newFlag (ConfigFields exampleWorld)) ?args = Inr fs"
    by blast
  have g: "FlagSet_GetString fs ''helm-flavour'' = Inr []"
    using Parse_map_of[OF p, of "''helm-flavour''"]
    by (simp add: FlagSet_GetString_def ConfigFields_def newFlag_def)
  note r = resolve_precedence[OF i p, of _ exampleWorld exampleViper]
  have "resolveFieldValue (Some fs) exampleViper (ConfigFields exampleWorld ! 7) = ''false''"
    using r[OF example_fields(1)]
    by (simp add: ConfigFields_def exampleViper_def viper_IsSet_def viper_GetString_def)
  moreover have "resolveFieldValue (Some fs) exampleViper (ConfigFields exampleWorld ! 1)
      = ''stateless''"
    using r[OF example_fields(2)]
    by (simp add: ConfigFields_def exampleViper_def viper_IsSet_def viper_GetString_def)
  moreover have "resolveFieldValue (Some fs) exampleViper (ConfigFields exampleWorld ! 9)
      = ''false''"
    using r[OF example_fields(3)]
    by (simp add: ConfigFields_def exampleViper_def viper_IsSet_def viper_GetString_def)
  ultimately show ?thesis using i p g by simp
qed

text \<open>
  C1. The resolution of the environments field (the seventh of the registry) when the
  configuration file gives the environments as a list, the format of the README, and
  the command line has no flags. The flag \<^verbatim>\<open>env\<close> is not set and the path \<^verbatim>\<open>env\<close> is set in
  the file, to the list of \<^verbatim>\<open>staging\<close> and \<^verbatim>\<open>production\<close>; the resolved value is the empty
  string and not the file's value. The loaded configuration has no environments, and
  the run deploys with the base values file only, without the values files of
  \<^verbatim>\<open>staging\<close> and \<^verbatim>\<open>production\<close>. With the same file and \<^verbatim>\<open>--env=staging,production\<close> on the
  command line the two environments are resolved.
\<close>

theorem env_list_in_file_dropped:
  "init exampleWorld = Inr (map newFlag (ConfigFields exampleWorld))
   \<and> ConfigPath (ConfigFields exampleWorld ! 6) = ''env''
   \<and> Flag (ConfigFields exampleWorld ! 6) = ''env''
   \<and> FlagSet_Changed (map newFlag (ConfigFields exampleWorld)) ''env'' = False
   \<and> viper_Get listViper ''env'' = Some (YList [YString ''staging'', YString ''production''])
   \<and> viper_IsSet listViper ''env''
   \<and> resolveFieldValue (Some (map newFlag (ConfigFields exampleWorld))) listViper
         (ConfigFields exampleWorld ! 6) = []
   \<and> LoadConfig exampleWorld (Some (map newFlag (ConfigFields exampleWorld))) listViper
       = Inr (exampleConfig\<lparr>Env := []\<rparr>)
   \<and> execs (snd (runDeploy exampleWorld (map newFlag (ConfigFields exampleWorld)) listViper))
       = [[''docker'', ''info''],
          [''docker'', ''build'', ''-t'', ''reg.example.com/acme/svc:latest'', ''.''],
          [''docker'', ''login'', ''reg.example.com'', ''-u'', ''ci'', ''--password-stdin''],
          [''docker'', ''push'', ''reg.example.com/acme/svc:latest''],
          [''helm'', ''upgrade'', ''--install'', ''svc'',
           ''/usr/local/share/dockwright/charts/stateless'',
           ''--kubeconfig'', ''/home/dev/.kube/config'', ''--kube-context'', ''dev-cluster'',
           ''--values'', ''.dockwright/helm/values.yaml'',
           ''--set'', ''image.repository=reg.example.com/acme/svc'',
           ''--set'', ''image.tag=latest'']]
   \<and> (case FlagSet_Parse (map newFlag (ConfigFields exampleWorld))
              [(''env'', ''staging,production'')] of
         Inl e \<Rightarrow> False
       | Inr fs \<Rightarrow> LoadConfig exampleWorld (Some fs) listViper = Inr exampleConfig)"
proof -
  let ?fs0 = "map newFlag (ConfigFields exampleWorld)"
  have 1: "ConfigPath (ConfigFields exampleWorld ! 6) = ''env''"
    "Flag (ConfigFields exampleWorld ! 6) = ''env''"
    by (simp_all add: ConfigFields_def)
  have 2: "FlagSet_Changed ?fs0 ''env'' = False"
    by (simp add: FlagSet_Changed_def ConfigFields_def newFlag_def)
  have 3: "viper_Get listViper ''env'' = Some (YList [YString ''staging'', YString ''production''])"
    "viper_IsSet listViper ''env''"
    by (simp_all add: listViper_def viper_IsSet_def)
  have 4: "resolveFieldValue (Some ?fs0) listViper (ConfigFields exampleWorld ! 6) = []"
    by code_simp
  have 5: "LoadConfig exampleWorld (Some ?fs0) listViper = Inr (exampleConfig\<lparr>Env := []\<rparr>)"
    by code_simp
  have 6: "execs (snd (runDeploy exampleWorld ?fs0 listViper))
       = [[''docker'', ''info''],
          [''docker'', ''build'', ''-t'', ''reg.example.com/acme/svc:latest'', ''.''],
          [''docker'', ''login'', ''reg.example.com'', ''-u'', ''ci'', ''--password-stdin''],
          [''docker'', ''push'', ''reg.example.com/acme/svc:latest''],
          [''helm'', ''upgrade'', ''--install'', ''svc'',
           ''/usr/local/share/dockwright/charts/stateless'',
           ''--kubeconfig'', ''/home/dev/.kube/config'', ''--kube-context'', ''dev-cluster'',
           ''--values'', ''.dockwright/helm/values.yaml'',
           ''--set'', ''image.repository=reg.example.com/acme/svc'',
           ''--set'', ''image.tag=latest'']]"
    by code_simp
  have 7: "(case FlagSet_Parse ?fs0 [(''env'', ''staging,production'')] of
         Inl e \<Rightarrow> False
       | Inr fs \<Rightarrow> LoadConfig exampleWorld (Some fs) listViper = Inr exampleConfig)"
    by code_simp
  from init_result[of exampleWorld] 1 2 3 4 5 6 7 show ?thesis
    by (intro conjI)
qed

section \<open>Boolean coercion\<close>

text \<open>
  The strings that \<open>parseBool\<close> accepts: \<^verbatim>\<open>true\<close> and \<^verbatim>\<open>1\<close> as they are, and \<^verbatim>\<open>yes\<close> in
  any mix of upper and lower case.
\<close>

lemma toLowerByte_iff:
  assumes "97 \<le> (of_char t :: nat)" "(of_char t :: nat) \<le> 122"
  shows "toLowerByte c = t \<longleftrightarrow> c = t \<or> (of_char c :: nat) + 32 = of_char t"
proof -
  let ?n = "of_char c :: nat"
  show ?thesis
  proof (cases "65 \<le> ?n \<and> ?n \<le> 90")
    case True
    then have "toLowerByte c = char_of (?n + 32)"
      by (simp add: toLowerByte_def Let_def)
    moreover have "char_of (?n + 32) = t \<longleftrightarrow> ?n + 32 = of_char t"
    proof
      assume "char_of (?n + 32) = t"
      then have "(of_char (char_of (?n + 32) :: char) :: nat) = of_char t" by simp
      then show "?n + 32 = of_char t" using True by (simp add: of_char_of)
    next
      assume "?n + 32 = of_char t"
      then show "char_of (?n + 32) = t" by (simp add: char_of_def[symmetric])
    qed
    moreover have "c \<noteq> t" using True assms by auto
    ultimately show ?thesis by simp
  next
    case False
    then have "toLowerByte c = c"
      by (auto simp: toLowerByte_def Let_def)
    moreover have "?n + 32 \<noteq> of_char t" using False assms by auto
    ultimately show ?thesis by auto
  qed
qed

lemma parseBool_accepted:
  "parseBool val \<longleftrightarrow>
     val = ''true'' \<or> val = ''1''
     \<or> (\<exists>a b c. val = [a, b, c] \<and> (a = CHR ''y'' \<or> a = CHR ''Y'')
           \<and> (b = CHR ''e'' \<or> b = CHR ''E'') \<and> (c = CHR ''s'' \<or> c = CHR ''S''))"
proof -
  have y: "toLowerByte a = CHR ''y'' \<longleftrightarrow> a = CHR ''y'' \<or> a = CHR ''Y''" for a
    by (subst toLowerByte_iff) (auto simp: of_char_eq_iff[symmetric, where ?'a = nat] simp del: of_char_eq_iff)
  have e: "toLowerByte a = CHR ''e'' \<longleftrightarrow> a = CHR ''e'' \<or> a = CHR ''E''" for a
    by (subst toLowerByte_iff) (auto simp: of_char_eq_iff[symmetric, where ?'a = nat] simp del: of_char_eq_iff)
  have s: "toLowerByte a = CHR ''s'' \<longleftrightarrow> a = CHR ''s'' \<or> a = CHR ''S''" for a
    by (subst toLowerByte_iff) (auto simp: of_char_eq_iff[symmetric, where ?'a = nat] simp del: of_char_eq_iff)
  have "ToLower val = ''yes'' \<longleftrightarrow>
      (\<exists>a b c. val = [a, b, c] \<and> toLowerByte a = CHR ''y'' \<and> toLowerByte b = CHR ''e''
         \<and> toLowerByte c = CHR ''s'')"
    by (auto simp: ToLower_def map_eq_Cons_conv)
  then show ?thesis
    by (simp add: parseBool_def y e s)
qed

text \<open>
  C2. \<open>parseBool\<close> at the tokens of the claim: \<^verbatim>\<open>"true"\<close>, \<^verbatim>\<open>"1"\<close>, \<^verbatim>\<open>"yes"\<close> and \<^verbatim>\<open>"Yes"\<close>
  give true; the empty string, \<^verbatim>\<open>"false"\<close>, \<^verbatim>\<open>"no"\<close> and \<^verbatim>\<open>"0"\<close> give false; and
  \<^verbatim>\<open>"TRUE"\<close> gives false, since only the comparison with \<^verbatim>\<open>"yes"\<close> ignores case.
\<close>

theorem parseBool_tokens:
  "parseBool ''true'' \<and> parseBool ''1'' \<and> parseBool ''yes'' \<and> parseBool ''Yes''
   \<and> \<not> parseBool [] \<and> \<not> parseBool ''false'' \<and> \<not> parseBool ''no'' \<and> \<not> parseBool ''0''
   \<and> \<not> parseBool ''TRUE''"
  by code_simp

section \<open>Evaluation on the example environment\<close>


lemma parseList_example: "parseList ''a, b ,,c'' (CHR '','') = [''a'', ''b'', ''c'']"
  by code_simp

lemma Clean_examples:
  "Clean ''a/../../b/./c//d/..'' = ''../b/c''"
  "Clean ''/../a/'' = ''/a''"
  "Clean [] = ''.''"
  "Join [[], ''a'', [], ''b/''] = ''a/b''"
  "Base ''/home/dev/svc/'' = ''svc''"
  by code_simp+

lemma example_paths:
  "baseValuesPath = ''.dockwright/helm/values.yaml''"
  "envValuesPath ''staging'' = ''.dockwright/helm/staging.values.yaml''"
  "envValuesPath ''production'' = ''.dockwright/helm/production.values.yaml''"
  "envValuesPath ''qa'' = ''.dockwright/helm/qa.values.yaml''"
  "ChartPath exampleConfig = ''/usr/local/share/dockwright/charts/stateless''"
  by code_simp+

section \<open>Events\<close>

lemma execs_append [simp]: "execs (xs @ ys) = execs xs @ execs ys"
  by (induction xs rule: execs.induct) auto

lemma stdinWrites_append [simp]: "stdinWrites (xs @ ys) = stdinWrites xs @ stdinWrites ys"
  by (induction xs rule: stdinWrites.induct) auto

lemma execs_logSection [simp]: "execs (logSection n t i) = []"
  by (simp add: logSection_def)

lemma execs_LogSummary [simp]: "execs (LogSummary c) = []"
  by (simp add: LogSummary_def summaryLine_def)

lemma execs_logArgLines [simp]: "execs (logArgLines args) = []"
  by (induction args rule: logArgLines.induct) auto

lemma execs_logArgs [simp]: "execs (logArgs args) = []"
  by (simp add: logArgs_def)

section \<open>Validation\<close>

text \<open>The required fields are the artifact name, the flavour, the kubeconfig path and
  the cluster context, checked in this order.\<close>

lemma validateConfig_table:
  "validateConfig w cfg =
     (if ArtifactName cfg = [] then Some (ErrRequiredField ''artifactName'' ''artifact-name'')
      else if HelmFlavour cfg = [] then Some (ErrRequiredField ''helmFlavour'' ''helm-flavour'')
      else if KubernetesConfig cfg = []
        then Some (ErrRequiredField ''kubernetesConfig'' ''kubernetes-config'')
      else if KubernetesContext cfg = []
        then Some (ErrRequiredField ''kubernetesContext'' ''kubernetes-context'')
      else None)"
  by (simp add: validateConfig_def ConfigFields_def getFieldValue_def)

text \<open>
  The loop of \<open>ValidateAll\<close> unrolled: the six checks in their order, each reached only
  when the ones before it passed, and the result sequence ending at the first failure.
\<close>

lemma ValidateAll_table:
  "ValidateAll w cfg =
     (let r1 = checkResult ''Configuration'' heavyCheck;
          r2 = checkResult ''Helm flavour'' (helmSymbol @ '' '');
          r3 = checkResult ''Environment variables'' lockWithKey;
          r4 = checkResult ''Environment values files'' pageFacingUp;
          r5 = checkResult ''Kubernetes context'' (wheelOfDharma @ '' '');
          r6 = checkResult ''System tools'' (hammerAndWrench @ '' '')
      in case validateConfig w cfg of
           Some e \<Rightarrow> (([r1 (Some e)], Some e), [])
         | None \<Rightarrow>
       (case validateHelmFlavour cfg of
           Some e \<Rightarrow> (([r1 None, r2 (Some e)], Some e), [])
         | None \<Rightarrow>
       (case validateEnvVars w of
           Some e \<Rightarrow> (([r1 None, r2 None, r3 (Some e)], Some e), [])
         | None \<Rightarrow>
       (case validateEnvValueFiles w cfg of
           Some e \<Rightarrow> (([r1 None, r2 None, r3 None, r4 (Some e)], Some e), [])
         | None \<Rightarrow>
       (case validateKubeContext w cfg of
           Some e \<Rightarrow> (([r1 None, r2 None, r3 None, r4 None, r5 (Some e)], Some e), [])
         | None \<Rightarrow>
       (case validateTools w of
           (Some e, ev) \<Rightarrow>
             (([r1 None, r2 None, r3 None, r4 None, r5 None, r6 (Some e)], Some e), ev)
         | (None, ev) \<Rightarrow>
             (([r1 None, r2 None, r3 None, r4 None, r5 None, r6 None], None), ev)))))))"
  by (simp add: ValidateAll_def checks_def Let_def split: option.splits prod.splits)



section \<open>Deployment workflow\<close>

text \<open>\<^verbatim>\<open>Run\<close> is \<open>deployArgs\<close> followed by \<^verbatim>\<open>execute\<close> on the argument vector.\<close>

lemma HelmRunner_Run_deployArgs:
  "HelmRunner_Run w cfg =
     (case deployArgs w cfg of
        (Inl err, ev) \<Rightarrow> (Some err, ev)
      | (Inr args, ev) \<Rightarrow> (case execute w cfg args of (r, ev') \<Rightarrow> (r, ev @ ev')))"
  by (simp add: HelmRunner_Run_def deployArgs_def Let_def
      split: prod.splits option.splits sum.splits)

text \<open>The argument vector does not depend on the dry-run flag.\<close>

lemma deployArgs_DryRun: "deployArgs w (cfg\<lparr>DryRun := b\<rparr>) = deployArgs w cfg"
proof -
  have c: "collectValuesFiles w (cfg\<lparr>DryRun := b\<rparr>) = collectValuesFiles w cfg"
    by (simp add: collectValuesFiles_def)
  have i: "buildImageArgs w (cfg\<lparr>DryRun := b\<rparr>) = buildImageArgs w cfg"
    by (simp add: buildImageArgs_def ShouldRunDockerBuild_def ImageRepository_def)
  have a: "buildArgs (cfg\<lparr>DryRun := b\<rparr>) = buildArgs cfg"
    by (simp add: buildArgs_def fun_eq_iff Let_def)
  have p: "ChartPath (cfg\<lparr>DryRun := b\<rparr>) = ChartPath cfg"
    by (simp add: ChartPath_def)
  show ?thesis
    unfolding deployArgs_def c i a p by (rule refl)
qed

lemma collectEnvValuesFiles_fst:
  "fst (collectEnvValuesFiles w envs files) =
     (case find (\<lambda>env. Stat w (envValuesPath env) = StatNotExist) envs of
        Some env \<Rightarrow> Inl (ErrValuesFileNotFound (envValuesPath env))
      | None \<Rightarrow> Inr (files @ map envValuesPath envs))"
  by (induction envs arbitrary: files)
     (simp_all add: envValuesPath_def[symmetric] Let_def case_prod_unfold split: option.splits)

lemma collectEnvValuesFiles_execs [simp]:
  "execs (snd (collectEnvValuesFiles w envs files)) = []"
  by (induction envs arbitrary: files) (simp_all add: Let_def case_prod_unfold)

lemma collectValuesFiles_fst:
  "fst (collectValuesFiles w cfg) =
     (case find (\<lambda>env. Stat w (envValuesPath env) = StatNotExist) (Env cfg) of
        Some env \<Rightarrow> Inl (ErrValuesFileNotFound (envValuesPath env))
      | None \<Rightarrow>
          Inr ((if Stat w baseValuesPath = StatOk then [baseValuesPath] else [])
               @ map envValuesPath (Env cfg)))"
proof -
  have "fst (collectValuesFiles w cfg) =
      fst (collectEnvValuesFiles w (Env cfg)
             (if Stat w baseValuesPath = StatOk then [baseValuesPath] else []))"
    by (simp add: collectValuesFiles_def baseValuesPath_def Let_def case_prod_unfold
        split: sum.splits)
  then show ?thesis by (simp add: collectEnvValuesFiles_fst)
qed

lemma collectValuesFiles_execs [simp]: "execs (snd (collectValuesFiles w cfg)) = []"
  by (simp add: collectValuesFiles_def Let_def case_prod_unfold split: sum.splits)

lemma foldl_values:
  "foldl (\<lambda>args f. args @ [''--values'', f]) a fs
     = a @ concat (map (\<lambda>f. [''--values'', f]) fs)"
  by (induction fs arbitrary: a) auto

lemma buildArgs_eq:
  "buildArgs cfg chartPath valuesFiles =
     [''upgrade'', ''--install'', ArtifactName cfg, chartPath,
      ''--kubeconfig'', KubernetesConfig cfg]
     @ (if KubernetesContext cfg \<noteq> [] then [''--kube-context'', KubernetesContext cfg] else [])
     @ concat (map (\<lambda>f. [''--values'', f]) valuesFiles)"
  by (simp add: buildArgs_def foldl_values Let_def)

lemma deployArgs_fst:
  "fst (deployArgs w cfg) =
     (if Stat w (ChartPath cfg) = StatNotExist then Inl (ErrChartNotFound (ChartPath cfg))
      else
        (case find (\<lambda>env. Stat w (envValuesPath env) = StatNotExist) (Env cfg) of
           Some env \<Rightarrow>
             Inl (Wrap ''failed to collect values files''
                    (ErrValuesFileNotFound (envValuesPath env)))
         | None \<Rightarrow>
             if ShouldRunDockerBuild w cfg
                \<and> (DockerHost cfg = [] \<or> DockerNamespace cfg = [] \<or> ArtifactName cfg = [])
             then Inl ErrImageRepository
             else
               Inr ([''upgrade'', ''--install'', ArtifactName cfg, ChartPath cfg,
                     ''--kubeconfig'', KubernetesConfig cfg]
                    @ (if KubernetesContext cfg \<noteq> []
                       then [''--kube-context'', KubernetesContext cfg] else [])
                    @ concat (map (\<lambda>f. [''--values'', f])
                        ((if Stat w baseValuesPath = StatOk then [baseValuesPath] else [])
                         @ map envValuesPath (Env cfg)))
                    @ (if ShouldRunDockerBuild w cfg
                       then [''--set'',
                             ''image.repository='' @ DockerHost cfg @ ''/''
                               @ DockerNamespace cfg @ ''/'' @ ArtifactName cfg,
                             ''--set'', ''image.tag=latest'']
                       else []))))"
proof -
  have d: "fst (deployArgs w cfg) =
     (if Stat w (ChartPath cfg) = StatNotExist then Inl (ErrChartNotFound (ChartPath cfg))
      else (case fst (collectValuesFiles w cfg) of
              Inl err \<Rightarrow> Inl (Wrap ''failed to collect values files'' err)
            | Inr valuesFiles \<Rightarrow>
                (case fst (buildImageArgs w cfg) of
                   Inl err \<Rightarrow> Inl err
                 | Inr imageArgs \<Rightarrow>
                     Inr (buildArgs cfg (ChartPath cfg) valuesFiles @ imageArgs))))"
    by (simp add: deployArgs_def validateChartExists_def Let_def case_prod_unfold
        split: option.splits sum.splits)
  have i: "fst (buildImageArgs w cfg) =
     (if ShouldRunDockerBuild w cfg
      then (if DockerHost cfg = [] \<or> DockerNamespace cfg = [] \<or> ArtifactName cfg = []
            then Inl ErrImageRepository
            else Inr [''--set'',
                      ''image.repository='' @ DockerHost cfg @ ''/''
                        @ DockerNamespace cfg @ ''/'' @ ArtifactName cfg,
                      ''--set'', ''image.tag=latest''])
      else Inr [])"
    by (simp add: buildImageArgs_def ImageRepository_def)
  show ?thesis
    unfolding d collectValuesFiles_fst i buildArgs_eq
    by (simp split: option.splits)
qed

lemma deployArgs_execs [simp]: "execs (snd (deployArgs w cfg)) = []"
  by (simp add: deployArgs_def validateChartExists_def buildImageArgs_def Let_def
      case_prod_unfold split: option.splits sum.splits)

lemma execute_execs:
  "execs (snd (execute w cfg args)) = (if DryRun cfg then [] else [''helm'' # args])"
  by (simp add: execute_def runCommand_def Let_def split: proc_outcome.splits)

lemma HelmRunner_Run_execs:
  "execs (snd (HelmRunner_Run w cfg)) =
     (case fst (deployArgs w cfg) of
        Inl err \<Rightarrow> []
      | Inr args \<Rightarrow> if DryRun cfg then [] else [''helm'' # args])"
  by (simp add: HelmRunner_Run_deployArgs case_prod_unfold execute_execs
      split: sum.splits)

lemma HelmRunner_Run_fst:
  "fst (HelmRunner_Run w cfg) =
     (case fst (deployArgs w cfg) of
        Inl err \<Rightarrow> Some err
      | Inr args \<Rightarrow> fst (execute w cfg args))"
  by (simp add: HelmRunner_Run_deployArgs case_prod_unfold split: sum.splits)

section \<open>Image workflow\<close>

lemma skip_condition:
  "ShouldRunDockerBuild w cfg \<longleftrightarrow> RunDockerBuild cfg \<and> Stat w ''Dockerfile'' = StatOk"
  by (auto simp: ShouldRunDockerBuild_def)

lemma build_dry:
  "DryRun cfg \<Longrightarrow> fst (build w cfg t) = None \<and> execs (snd (build w cfg t)) = []
     \<and> stdinWrites (snd (build w cfg t)) = []"
  by (simp add: build_def Let_def)

lemma push_dry:
  "DryRun cfg \<Longrightarrow> fst (push w cfg t) = None \<and> execs (snd (push w cfg t)) = []
     \<and> stdinWrites (snd (push w cfg t)) = []"
  by (simp add: push_def Let_def)

lemma login_dry:
  "DryRun cfg \<Longrightarrow>
   login w cfg =
     (if Getenv w ''REGISTRY_USERNAME'' = [] \<or> Getenv w ''REGISTRY_PASSWORD'' = []
      then (Some ErrRegistryCredentials, [])
      else (None,
            [LogInfo (lockWithKey @ '' Authenticating with Docker registry: '' @ DockerHost cfg),
             LogInfo (''   Username: '' @ Getenv w ''REGISTRY_USERNAME''),
             LogInfo (''   '' @ testTube @ '' [DRY-RUN] Would run: docker login ''
                      @ DockerHost cfg @ '' -u '' @ Getenv w ''REGISTRY_USERNAME'')]))"
  by (simp add: login_def Let_def)

lemma DockerRunner_Run_dry:
  assumes "DryRun cfg"
  shows "execs (snd (DockerRunner_Run w cfg)) = []"
    and "stdinWrites (snd (DockerRunner_Run w cfg)) = []"
    and "fst (DockerRunner_Run w cfg) = Some e \<Longrightarrow> \<not> isExternalToolError e"
proof -
  have r: "DockerRunner_Run w cfg =
     (if \<not> ShouldRunDockerBuild w cfg then
        (None,
         [LogInfo (nextTrack @ ''  Skipping Docker workflow. Either docker build (--docker-build) flag is disabled or Dockerfile is missing.'')])
      else
        (case ImageTag cfg of
           Inl err \<Rightarrow> (Some err, [])
         | Inr imageTag \<Rightarrow>
             (case login w cfg of
                (Some err, ev2) \<Rightarrow>
                  (Some (Wrap ''docker login failed'' err), snd (build w cfg imageTag) @ ev2)
              | (None, ev2) \<Rightarrow>
                  (None, snd (build w cfg imageTag) @ ev2 @ snd (push w cfg imageTag)))))"
    using build_dry[OF assms, of w] push_dry[OF assms, of w]
    by (simp add: DockerRunner_Run_def case_prod_unfold split: sum.splits option.splits)
  show "execs (snd (DockerRunner_Run w cfg)) = []"
    unfolding r login_dry[OF assms]
    using build_dry[OF assms, of w] push_dry[OF assms, of w]
    by (simp split: sum.splits)
  show "stdinWrites (snd (DockerRunner_Run w cfg)) = []"
    unfolding r login_dry[OF assms]
    using build_dry[OF assms, of w] push_dry[OF assms, of w]
    by (simp split: sum.splits)
  show "\<not> isExternalToolError e" if "fst (DockerRunner_Run w cfg) = Some e"
    using that unfolding r login_dry[OF assms]
    by (auto simp: ImageTag_def ImageRepository_def split: sum.splits if_splits)
qed

lemma HelmRunner_Run_dry_error:
  assumes "DryRun cfg" and "fst (HelmRunner_Run w cfg) = Some e"
  shows "\<not> isExternalToolError e"
proof -
  have "fst (HelmRunner_Run w cfg) =
      (case fst (deployArgs w cfg) of Inl err \<Rightarrow> Some err | Inr args \<Rightarrow> None)"
    using assms(1) by (simp add: HelmRunner_Run_fst execute_def split: sum.splits)
  with assms(2) have "fst (deployArgs w cfg) = Inl e"
    by (simp split: sum.splits)
  then show ?thesis
    by (auto simp: deployArgs_fst split: if_splits option.splits)
qed

section \<open>Dry run\<close>

lemma example_deployArgs0:
  "fst (deployArgs exampleWorld exampleConfig) = Inr exampleVector"
  by code_simp

lemma example_deployArgs:
  "fst (deployArgs exampleWorld (exampleConfig\<lparr>DryRun := b\<rparr>)) = Inr exampleVector"
  by (simp add: deployArgs_DryRun example_deployArgs0)

lemma example_dry_failures:
  "fst (DockerRunner_Run exampleWorld (exampleConfig\<lparr>DockerNamespace := [], DryRun := True\<rparr>))
     = Some ErrImageRepository"
  "fst (HelmRunner_Run exampleWorld (exampleConfig\<lparr>Env := [''qa''], DryRun := True\<rparr>))
     = Some (Wrap ''failed to collect values files''
               (ErrValuesFileNotFound ''.dockwright/helm/qa.values.yaml''))"
proof -
  show "fst (DockerRunner_Run exampleWorld (exampleConfig\<lparr>DockerNamespace := [], DryRun := True\<rparr>))
     = Some ErrImageRepository"
    by (simp add: DockerRunner_Run_def skip_condition ImageTag_def ImageRepository_def
        exampleWorld_def exampleConfig_def)
  have cp: "ChartPath (exampleConfig\<lparr>Env := [''qa''], DryRun := True\<rparr>)
      = ''/usr/local/share/dockwright/charts/stateless''"
    using example_paths(5) by (simp add: ChartPath_def)
  show "fst (HelmRunner_Run exampleWorld (exampleConfig\<lparr>Env := [''qa''], DryRun := True\<rparr>))
     = Some (Wrap ''failed to collect values files''
               (ErrValuesFileNotFound ''.dockwright/helm/qa.values.yaml''))"
    by (simp add: HelmRunner_Run_fst deployArgs_fst cp example_paths)
       (simp add: exampleWorld_def)
qed

text \<open>
  C4. With the dry-run flag set: the build and the push step return no error and start
  no command; the authenticate step starts no command, writes to no input stream and
  returns no error or the error of missing credentials; \<^verbatim>\<open>execute\<close> starts no command
  and logs the plan of the vector it was given with \<^verbatim>\<open>--dry-run\<close> appended, where the
  same call without the flag starts \<^verbatim>\<open>helm\<close> with the vector as given; the two workflows
  as a whole start no command. The vector handed to \<^verbatim>\<open>execute\<close> does not depend on the
  flag, so whenever \<^verbatim>\<open>Run\<close> reaches \<^verbatim>\<open>execute\<close> with a vector \<open>vec\<close>, the dry run logs the
  plan of \<open>vec\<close> followed by \<^verbatim>\<open>--dry-run\<close> and the real run with the same configuration
  starts \<^verbatim>\<open>helm\<close> with \<open>vec\<close>. No error of these workflows in a dry run is an error of an
  external tool.
\<close>

theorem dry_run_plan:
  assumes dry: "DryRun cfg"
  shows "fst (build w cfg imageTag) = None \<and> execs (snd (build w cfg imageTag)) = []
         \<and> (fst (login w cfg) = None \<or> fst (login w cfg) = Some ErrRegistryCredentials)
         \<and> execs (snd (login w cfg)) = [] \<and> stdinWrites (snd (login w cfg)) = []
         \<and> fst (push w cfg imageTag) = None \<and> execs (snd (push w cfg imageTag)) = []
         \<and> execute w cfg args =
             (None, LogInfo (''   '' @ testTube @ '' [DRY-RUN] Would run: helm'')
                    # logArgs (args @ [''--dry-run'']))
         \<and> execs (snd (execute w (cfg\<lparr>DryRun := False\<rparr>) args)) = [''helm'' # args]
         \<and> execs (snd (DockerRunner_Run w cfg)) = []
         \<and> stdinWrites (snd (DockerRunner_Run w cfg)) = []
         \<and> execs (snd (HelmRunner_Run w cfg)) = []
         \<and> deployArgs w (cfg\<lparr>DryRun := False\<rparr>) = deployArgs w cfg
         \<and> (\<forall>vec. fst (deployArgs w cfg) = Inr vec \<longrightarrow>
               HelmRunner_Run w cfg =
                 (None, snd (deployArgs w cfg)
                        @ LogInfo (''   '' @ testTube @ '' [DRY-RUN] Would run: helm'')
                        # logArgs (vec @ [''--dry-run'']))
               \<and> execs (snd (HelmRunner_Run w (cfg\<lparr>DryRun := False\<rparr>))) = [''helm'' # vec])
         \<and> (\<forall>e. fst (DockerRunner_Run w cfg) = Some e \<longrightarrow> \<not> isExternalToolError e)
         \<and> (\<forall>e. fst (HelmRunner_Run w cfg) = Some e \<longrightarrow> \<not> isExternalToolError e)"
proof -
  have l: "(fst (login w cfg) = None \<or> fst (login w cfg) = Some ErrRegistryCredentials)
      \<and> execs (snd (login w cfg)) = [] \<and> stdinWrites (snd (login w cfg)) = []"
    by (simp add: login_dry[OF dry])
  have x: "execute w cfg args =
      (None, LogInfo (''   '' @ testTube @ '' [DRY-RUN] Would run: helm'')
             # logArgs (args @ [''--dry-run'']))"
    using dry by (simp add: execute_def)
  have x': "execs (snd (execute w (cfg\<lparr>DryRun := False\<rparr>) args)) = [''helm'' # args]"
    by (simp add: execute_execs)
  have h: "execs (snd (HelmRunner_Run w cfg)) = []"
    using dry by (simp add: HelmRunner_Run_execs split: sum.splits)
  have v: "HelmRunner_Run w cfg =
        (None, snd (deployArgs w cfg)
               @ LogInfo (''   '' @ testTube @ '' [DRY-RUN] Would run: helm'')
               # logArgs (vec @ [''--dry-run'']))
      \<and> execs (snd (HelmRunner_Run w (cfg\<lparr>DryRun := False\<rparr>))) = [''helm'' # vec]"
    if "fst (deployArgs w cfg) = Inr vec" for vec
  proof -
    have "HelmRunner_Run w cfg =
        (None, snd (deployArgs w cfg)
               @ LogInfo (''   '' @ testTube @ '' [DRY-RUN] Would run: helm'')
               # logArgs (vec @ [''--dry-run'']))"
      using dry that by (simp add: HelmRunner_Run_deployArgs execute_def case_prod_unfold)
    moreover have "execs (snd (HelmRunner_Run w (cfg\<lparr>DryRun := False\<rparr>))) = [''helm'' # vec]"
      using that by (simp add: HelmRunner_Run_execs deployArgs_DryRun)
    ultimately show ?thesis by simp
  qed
  show ?thesis
    using build_dry[OF dry, of w imageTag] push_dry[OF dry, of w imageTag] l x x' h v
      DockerRunner_Run_dry[OF dry, of w] HelmRunner_Run_dry_error[OF dry, of w]
      deployArgs_DryRun[where b = False and w = w and cfg = cfg]
    by blast
qed

text \<open>
  Instances: the example configuration with the dry-run flag set; and two dry runs that
  fail, one in the image workflow (empty namespace) and one in the deployment workflow
  (missing values file), with errors that are not errors of an external tool.
\<close>

theorem dry_run_plan_witness:
  "DryRun (exampleConfig\<lparr>DryRun := True\<rparr>)
   \<and> execs (snd (DockerRunner_Run exampleWorld (exampleConfig\<lparr>DryRun := True\<rparr>))) = []
   \<and> execs (snd (HelmRunner_Run exampleWorld (exampleConfig\<lparr>DryRun := True\<rparr>))) = []
   \<and> fst (deployArgs exampleWorld (exampleConfig\<lparr>DryRun := True\<rparr>)) = Inr exampleVector
   \<and> HelmRunner_Run exampleWorld (exampleConfig\<lparr>DryRun := True\<rparr>) =
       (None, snd (deployArgs exampleWorld (exampleConfig\<lparr>DryRun := True\<rparr>))
              @ LogInfo (''   '' @ testTube @ '' [DRY-RUN] Would run: helm'')
              # logArgs (exampleVector @ [''--dry-run'']))
   \<and> execs (snd (HelmRunner_Run exampleWorld (exampleConfig\<lparr>DryRun := False\<rparr>)))
       = [''helm'' # exampleVector]
   \<and> fst (DockerRunner_Run exampleWorld (exampleConfig\<lparr>DockerNamespace := [], DryRun := True\<rparr>))
       = Some ErrImageRepository
   \<and> \<not> isExternalToolError ErrImageRepository
   \<and> fst (HelmRunner_Run exampleWorld (exampleConfig\<lparr>Env := [''qa''], DryRun := True\<rparr>))
       = Some (Wrap ''failed to collect values files''
                 (ErrValuesFileNotFound ''.dockwright/helm/qa.values.yaml''))
   \<and> \<not> isExternalToolError
         (Wrap ''failed to collect values files''
            (ErrValuesFileNotFound ''.dockwright/helm/qa.values.yaml''))"
proof -
  have d: "DryRun (exampleConfig\<lparr>DryRun := True\<rparr>)" by simp
  have d1: "DryRun (exampleConfig\<lparr>DockerNamespace := [], DryRun := True\<rparr>)" by simp
  have d2: "DryRun (exampleConfig\<lparr>Env := [''qa''], DryRun := True\<rparr>)" by simp
  have "execs (snd (HelmRunner_Run exampleWorld (exampleConfig\<lparr>DryRun := True, DryRun := False\<rparr>)))
       = [''helm'' # exampleVector]"
    using dry_run_plan[OF d, of exampleWorld] example_deployArgs[of True] by blast
  moreover have "\<not> isExternalToolError ErrImageRepository"
    using dry_run_plan[OF d1, of exampleWorld] example_dry_failures(1) by blast
  moreover have "\<not> isExternalToolError
         (Wrap ''failed to collect values files''
            (ErrValuesFileNotFound ''.dockwright/helm/qa.values.yaml''))"
    using dry_run_plan[OF d2, of exampleWorld] example_dry_failures(2) by blast
  ultimately show ?thesis
    using dry_run_plan[OF d, of exampleWorld] example_deployArgs[of True] example_dry_failures
    by simp
qed

section \<open>The argument vector of the deploy command\<close>

text \<open>
  C5. \<^verbatim>\<open>Run\<close> ends before \<^verbatim>\<open>execute\<close> with an error when the chart is missing, when the
  values file of a requested environment is missing, or when the image build is
  eligible and the image repository cannot be computed. In every other case the vector
  handed to \<^verbatim>\<open>execute\<close> is exactly: \<^verbatim>\<open>upgrade\<close>, \<^verbatim>\<open>--install\<close>, the artifact name, the chart
  path, \<^verbatim>\<open>--kubeconfig\<close> and the configured path; then \<^verbatim>\<open>--kube-context\<close> and the context
  if and only if the context is not empty; then \<^verbatim>\<open>--values\<close> and the path for each
  collected values file in the order of collection; then, if and only if the image
  build is eligible, \<^verbatim>\<open>--set image.repository=\<close>host/namespace/name and
  \<^verbatim>\<open>--set image.tag=latest\<close>, after all values files. A real run starts \<^verbatim>\<open>helm\<close> with
  exactly this vector and nothing else; a dry run starts nothing (\<^verbatim>\<open>execute\<close> appends
  \<^verbatim>\<open>--dry-run\<close> to the vector and logs it).
\<close>

theorem deploy_argument_vector:
  "fst (deployArgs w cfg) =
     (if Stat w (ChartPath cfg) = StatNotExist then Inl (ErrChartNotFound (ChartPath cfg))
      else
        (case find (\<lambda>env. Stat w (envValuesPath env) = StatNotExist) (Env cfg) of
           Some env \<Rightarrow>
             Inl (Wrap ''failed to collect values files''
                    (ErrValuesFileNotFound (envValuesPath env)))
         | None \<Rightarrow>
             if ShouldRunDockerBuild w cfg
                \<and> (DockerHost cfg = [] \<or> DockerNamespace cfg = [] \<or> ArtifactName cfg = [])
             then Inl ErrImageRepository
             else
               Inr ([''upgrade'', ''--install'', ArtifactName cfg, ChartPath cfg,
                     ''--kubeconfig'', KubernetesConfig cfg]
                    @ (if KubernetesContext cfg \<noteq> []
                       then [''--kube-context'', KubernetesContext cfg] else [])
                    @ concat (map (\<lambda>f. [''--values'', f])
                        ((if Stat w baseValuesPath = StatOk then [baseValuesPath] else [])
                         @ map envValuesPath (Env cfg)))
                    @ (if ShouldRunDockerBuild w cfg
                       then [''--set'',
                             ''image.repository='' @ DockerHost cfg @ ''/''
                               @ DockerNamespace cfg @ ''/'' @ ArtifactName cfg,
                             ''--set'', ''image.tag=latest'']
                       else []))))
   \<and> execs (snd (HelmRunner_Run w cfg)) =
       (case fst (deployArgs w cfg) of
          Inl err \<Rightarrow> []
        | Inr args \<Rightarrow> if DryRun cfg then [] else [''helm'' # args])
   \<and> fst (HelmRunner_Run w cfg) =
       (case fst (deployArgs w cfg) of
          Inl err \<Rightarrow> Some err
        | Inr args \<Rightarrow> fst (execute w cfg args))"
  by (rule conjI[OF deployArgs_fst conjI[OF HelmRunner_Run_execs HelmRunner_Run_fst]])

text \<open>
  Instances: the example configuration, and the same without a context, with one
  environment and with the image build switched off.
\<close>

theorem deploy_argument_vector_witness:
  "fst (deployArgs exampleWorld exampleConfig) = Inr exampleVector
   \<and> execs (snd (HelmRunner_Run exampleWorld exampleConfig)) = [''helm'' # exampleVector]
   \<and> fst (deployArgs exampleWorld
             (exampleConfig\<lparr>KubernetesContext := [], Env := [''production''],
                RunDockerBuild := False\<rparr>))
       = Inr [''upgrade'', ''--install'', ''svc'',
              ''/usr/local/share/dockwright/charts/stateless'',
              ''--kubeconfig'', ''/home/dev/.kube/config'',
              ''--values'', ''.dockwright/helm/values.yaml'',
              ''--values'', ''.dockwright/helm/production.values.yaml'']"
proof -
  let ?c = "exampleConfig\<lparr>KubernetesContext := [], Env := [''production''],
                RunDockerBuild := False\<rparr>"
  have cp: "ChartPath ?c = ChartPath exampleConfig"
    by (simp add: ChartPath_def)
  have a: "fst (deployArgs exampleWorld exampleConfig) = Inr exampleVector"
    by (rule example_deployArgs0)
  have b: "execs (snd (HelmRunner_Run exampleWorld exampleConfig)) = [''helm'' # exampleVector]"
    using deploy_argument_vector[of exampleWorld exampleConfig] a
    by (simp add: exampleConfig_def)
  have c: "fst (deployArgs exampleWorld ?c)
       = Inr [''upgrade'', ''--install'', ''svc'',
              ''/usr/local/share/dockwright/charts/stateless'',
              ''--kubeconfig'', ''/home/dev/.kube/config'',
              ''--values'', ''.dockwright/helm/values.yaml'',
              ''--values'', ''.dockwright/helm/production.values.yaml'']"
    using deploy_argument_vector[of exampleWorld ?c]
    by (simp add: cp example_paths skip_condition) (simp add: exampleWorld_def exampleConfig_def)
  from a b c show ?thesis by simp
qed

section \<open>The values files\<close>

text \<open>
  C6. A file exists when \<^verbatim>\<open>os.Stat\<close> succeeds and does not exist when \<^verbatim>\<open>os.Stat\<close> reports
  that it does not exist. The collection fails if and only if the values file of some
  requested environment does not exist, with the error naming the path of the first
  such file in request order; otherwise it is the base file if and only if that exists,
  followed by the values file of each requested environment in request order. When
  the collection fails, \<^verbatim>\<open>Run\<close> ends before an argument vector is built: no vector is
  handed to \<^verbatim>\<open>execute\<close>, no command is started, and (the chart being there) \<^verbatim>\<open>Run\<close>
  returns the error of the collection, wrapped.
\<close>

theorem values_file_set:
  "fst (collectValuesFiles w cfg) =
     (case find (\<lambda>env. Stat w (envValuesPath env) = StatNotExist) (Env cfg) of
        Some env \<Rightarrow> Inl (ErrValuesFileNotFound (envValuesPath env))
      | None \<Rightarrow>
          Inr ((if Stat w baseValuesPath = StatOk then [baseValuesPath] else [])
               @ map envValuesPath (Env cfg)))
   \<and> (\<forall>e. fst (collectValuesFiles w cfg) = Inl e \<longrightarrow>
          (\<exists>err. fst (deployArgs w cfg) = Inl err)
          \<and> execs (snd (HelmRunner_Run w cfg)) = []
          \<and> (Stat w (ChartPath cfg) \<noteq> StatNotExist \<longrightarrow>
               fst (HelmRunner_Run w cfg) = Some (Wrap ''failed to collect values files'' e)))"
proof (intro conjI allI impI)
  show "fst (collectValuesFiles w cfg) =
     (case find (\<lambda>env. Stat w (envValuesPath env) = StatNotExist) (Env cfg) of
        Some env \<Rightarrow> Inl (ErrValuesFileNotFound (envValuesPath env))
      | None \<Rightarrow>
          Inr ((if Stat w baseValuesPath = StatOk then [baseValuesPath] else [])
               @ map envValuesPath (Env cfg)))"
    by (rule collectValuesFiles_fst)
next
  fix e assume f: "fst (collectValuesFiles w cfg) = Inl e"
  then obtain env where
    m: "find (\<lambda>env. Stat w (envValuesPath env) = StatNotExist) (Env cfg) = Some env"
    and e: "e = ErrValuesFileNotFound (envValuesPath env)"
    by (auto simp: collectValuesFiles_fst split: option.splits)
  from m show a: "\<exists>err. fst (deployArgs w cfg) = Inl err"
    by (simp add: deployArgs_fst)
  then show "execs (snd (HelmRunner_Run w cfg)) = []"
    by (auto simp: HelmRunner_Run_execs)
  assume "Stat w (ChartPath cfg) \<noteq> StatNotExist"
  with m e show "fst (HelmRunner_Run w cfg) = Some (Wrap ''failed to collect values files'' e)"
    by (simp add: HelmRunner_Run_fst deployArgs_fst)
qed

text \<open>
  Instances: the example configuration, whose files all exist, and the environments
  \<^verbatim>\<open>staging\<close>, \<^verbatim>\<open>qa\<close>, where the values file of \<^verbatim>\<open>qa\<close> is missing.
\<close>

theorem values_file_set_witness:
  "fst (collectValuesFiles exampleWorld exampleConfig)
     = Inr [''.dockwright/helm/values.yaml'', ''.dockwright/helm/staging.values.yaml'',
            ''.dockwright/helm/production.values.yaml'']
   \<and> fst (collectValuesFiles exampleWorld (exampleConfig\<lparr>Env := [''staging'', ''qa'']\<rparr>))
       = Inl (ErrValuesFileNotFound ''.dockwright/helm/qa.values.yaml'')
   \<and> Stat exampleWorld (ChartPath (exampleConfig\<lparr>Env := [''staging'', ''qa'']\<rparr>)) \<noteq> StatNotExist
   \<and> fst (HelmRunner_Run exampleWorld (exampleConfig\<lparr>Env := [''staging'', ''qa'']\<rparr>))
       = Some (Wrap ''failed to collect values files''
                 (ErrValuesFileNotFound ''.dockwright/helm/qa.values.yaml''))
   \<and> execs (snd (HelmRunner_Run exampleWorld (exampleConfig\<lparr>Env := [''staging'', ''qa'']\<rparr>))) = []"
proof -
  let ?c = "exampleConfig\<lparr>Env := [''staging'', ''qa'']\<rparr>"
  have cp: "ChartPath ?c = ''/usr/local/share/dockwright/charts/stateless''"
    using example_paths(5) by (simp add: ChartPath_def)
  have s: "Stat exampleWorld (ChartPath ?c) \<noteq> StatNotExist"
    unfolding cp by (simp add: exampleWorld_def)
  have a: "fst (collectValuesFiles exampleWorld exampleConfig)
     = Inr [''.dockwright/helm/values.yaml'', ''.dockwright/helm/staging.values.yaml'',
            ''.dockwright/helm/production.values.yaml'']"
    using values_file_set[of exampleWorld exampleConfig]
    by (simp add: example_paths exampleWorld_def exampleConfig_def)
  have b: "fst (collectValuesFiles exampleWorld ?c)
       = Inl (ErrValuesFileNotFound ''.dockwright/helm/qa.values.yaml'')"
    using values_file_set[of exampleWorld ?c]
    by (simp add: example_paths exampleWorld_def)
  from values_file_set[of exampleWorld ?c] b s
  have "fst (HelmRunner_Run exampleWorld ?c)
       = Some (Wrap ''failed to collect values files''
                 (ErrValuesFileNotFound ''.dockwright/helm/qa.values.yaml''))
     \<and> execs (snd (HelmRunner_Run exampleWorld ?c)) = []"
    by blast
  with a b s show ?thesis by simp
qed

section \<open>Skipping the image workflow\<close>

text \<open>
  C7. When the run-image-build flag is false or \<^verbatim>\<open>os.Stat\<close> does not find the Dockerfile,
  the image workflow, whose first step is this test, returns success after one log
  line, starts no command and writes to no input stream; the deployment workflow then
  builds no image overrides, and its argument vector, when there is one, ends with the
  values files.
\<close>

theorem image_workflow_skip:
  assumes skip: "\<not> RunDockerBuild cfg \<or> Stat w ''Dockerfile'' \<noteq> StatOk"
  shows "DockerRunner_Run w cfg =
           (None,
            [LogInfo (nextTrack @ ''  Skipping Docker workflow. Either docker build (--docker-build) flag is disabled or Dockerfile is missing.'')])
         \<and> execs (snd (DockerRunner_Run w cfg)) = []
         \<and> stdinWrites (snd (DockerRunner_Run w cfg)) = []
         \<and> buildImageArgs w cfg = (Inr [], [])
         \<and> (\<forall>args. fst (deployArgs w cfg) = Inr args \<longrightarrow>
               args =
                 [''upgrade'', ''--install'', ArtifactName cfg, ChartPath cfg,
                  ''--kubeconfig'', KubernetesConfig cfg]
                 @ (if KubernetesContext cfg \<noteq> []
                    then [''--kube-context'', KubernetesContext cfg] else [])
                 @ concat (map (\<lambda>f. [''--values'', f])
                     ((if Stat w baseValuesPath = StatOk then [baseValuesPath] else [])
                      @ map envValuesPath (Env cfg))))"
proof -
  from skip have n: "\<not> ShouldRunDockerBuild w cfg"
    by (auto simp: skip_condition)
  then have d: "DockerRunner_Run w cfg =
           (None,
            [LogInfo (nextTrack @ ''  Skipping Docker workflow. Either docker build (--docker-build) flag is disabled or Dockerfile is missing.'')])"
    by (simp add: DockerRunner_Run_def)
  from n have i: "buildImageArgs w cfg = (Inr [], [])"
    by (simp add: buildImageArgs_def)
  have v: "args =
                 [''upgrade'', ''--install'', ArtifactName cfg, ChartPath cfg,
                  ''--kubeconfig'', KubernetesConfig cfg]
                 @ (if KubernetesContext cfg \<noteq> []
                    then [''--kube-context'', KubernetesContext cfg] else [])
                 @ concat (map (\<lambda>f. [''--values'', f])
                     ((if Stat w baseValuesPath = StatOk then [baseValuesPath] else [])
                      @ map envValuesPath (Env cfg)))"
    if "fst (deployArgs w cfg) = Inr args" for args
    using that n by (simp add: deployArgs_fst split: if_splits option.splits)
  from d i v show ?thesis by simp
qed

text \<open>An instance: the example configuration with the image build switched off.\<close>

theorem image_workflow_skip_witness:
  "RunDockerBuild (exampleConfig\<lparr>RunDockerBuild := False\<rparr>) = False
   \<and> fst (DockerRunner_Run exampleWorld (exampleConfig\<lparr>RunDockerBuild := False\<rparr>)) = None
   \<and> execs (snd (DockerRunner_Run exampleWorld (exampleConfig\<lparr>RunDockerBuild := False\<rparr>))) = []
   \<and> fst (deployArgs exampleWorld (exampleConfig\<lparr>RunDockerBuild := False\<rparr>))
       = Inr (take 14 exampleVector)
   \<and> ''--set'' \<notin> set (take 14 exampleVector)"
proof -
  let ?c = "exampleConfig\<lparr>RunDockerBuild := False\<rparr>"
  have h: "\<not> RunDockerBuild ?c \<or> Stat exampleWorld ''Dockerfile'' \<noteq> StatOk"
    by simp
  have cp: "ChartPath ?c = ChartPath exampleConfig"
    by (simp add: ChartPath_def)
  have "\<exists>args. fst (deployArgs exampleWorld ?c) = Inr args"
    by (simp add: deployArgs_fst cp example_paths skip_condition)
       (simp add: exampleWorld_def exampleConfig_def example_paths)
  then obtain args where a: "fst (deployArgs exampleWorld ?c) = Inr args"
    by blast
  note r = image_workflow_skip[OF h]
  from r a have "args =
      [''upgrade'', ''--install'', ArtifactName ?c, ChartPath ?c,
       ''--kubeconfig'', KubernetesConfig ?c]
      @ (if KubernetesContext ?c \<noteq> [] then [''--kube-context'', KubernetesContext ?c] else [])
      @ concat (map (\<lambda>f. [''--values'', f])
          ((if Stat exampleWorld baseValuesPath = StatOk then [baseValuesPath] else [])
           @ map envValuesPath (Env ?c)))"
    by blast
  then have v: "args = take 14 exampleVector"
    by (simp add: cp example_paths)
       (simp add: exampleWorld_def exampleConfig_def exampleVector_def example_paths)
  from r have "fst (DockerRunner_Run exampleWorld ?c) = None
      \<and> execs (snd (DockerRunner_Run exampleWorld ?c)) = []"
    by simp
  with a v h show ?thesis
    by (simp add: exampleVector_def)
qed

section \<open>The registry password\<close>

text \<open>
  C8. The authenticate step with a password set. The only command it starts is
  \<^verbatim>\<open>docker login\<close> with the host, \<^verbatim>\<open>-u\<close>, the user name and \<^verbatim>\<open>--password-stdin\<close>; the only
  bytes it writes to the input stream of that command are the password and a newline.
  In a dry run it writes nothing and logs the registry, the user name and the planned
  command with host and user name. Replacing the password by any other non-empty
  password changes neither the result, nor the commands started with their argument
  vectors, nor the log lines: the password reaches nothing but the input stream.
\<close>

theorem login_password_confined:
  assumes pw: "Getenv w ''REGISTRY_PASSWORD'' \<noteq> []" and p: "p \<noteq> []"
  shows "execs (snd (login w cfg)) =
           (if Getenv w ''REGISTRY_USERNAME'' = [] \<or> DryRun cfg \<or> \<not> stdinPipeOk w then []
            else [[''docker'', ''login'', DockerHost cfg, ''-u'', Getenv w ''REGISTRY_USERNAME'',
                   ''--password-stdin'']])
         \<and> set (stdinWrites (snd (login w cfg)))
             \<subseteq> {Getenv w ''REGISTRY_PASSWORD'' @ [CHR 0x0A]}
         \<and> (DryRun cfg \<longrightarrow> stdinWrites (snd (login w cfg)) = [])
         \<and> (DryRun cfg \<longrightarrow> Getenv w ''REGISTRY_USERNAME'' \<noteq> [] \<longrightarrow>
              login w cfg =
                (None,
                 [LogInfo (lockWithKey @ '' Authenticating with Docker registry: ''
                           @ DockerHost cfg),
                  LogInfo (''   Username: '' @ Getenv w ''REGISTRY_USERNAME''),
                  LogInfo (''   '' @ testTube @ '' [DRY-RUN] Would run: docker login ''
                           @ DockerHost cfg @ '' -u '' @ Getenv w ''REGISTRY_USERNAME'')]))
         \<and> fst (login (w\<lparr>Getenv := (Getenv w)(''REGISTRY_PASSWORD'' := p)\<rparr>) cfg)
             = fst (login w cfg)
         \<and> execs (snd (login (w\<lparr>Getenv := (Getenv w)(''REGISTRY_PASSWORD'' := p)\<rparr>) cfg))
             = execs (snd (login w cfg))
         \<and> logLines (snd (login (w\<lparr>Getenv := (Getenv w)(''REGISTRY_PASSWORD'' := p)\<rparr>) cfg))
             = logLines (snd (login w cfg))"
proof (intro conjI impI)
  show "execs (snd (login w cfg)) =
           (if Getenv w ''REGISTRY_USERNAME'' = [] \<or> DryRun cfg \<or> \<not> stdinPipeOk w then []
            else [[''docker'', ''login'', DockerHost cfg, ''-u'', Getenv w ''REGISTRY_USERNAME'',
                   ''--password-stdin'']])"
    using pw by (simp add: login_def Let_def)
  show "set (stdinWrites (snd (login w cfg))) \<subseteq> {Getenv w ''REGISTRY_PASSWORD'' @ [CHR 0x0A]}"
    by (simp add: login_def Let_def)
  show "stdinWrites (snd (login w cfg)) = []" if "DryRun cfg"
    using that by (simp add: login_dry)
  show "login w cfg =
                (None,
                 [LogInfo (lockWithKey @ '' Authenticating with Docker registry: ''
                           @ DockerHost cfg),
                  LogInfo (''   Username: '' @ Getenv w ''REGISTRY_USERNAME''),
                  LogInfo (''   '' @ testTube @ '' [DRY-RUN] Would run: docker login ''
                           @ DockerHost cfg @ '' -u '' @ Getenv w ''REGISTRY_USERNAME'')])"
    if "DryRun cfg" "Getenv w ''REGISTRY_USERNAME'' \<noteq> []"
    using that pw by (simp add: login_dry)
  show "fst (login (w\<lparr>Getenv := (Getenv w)(''REGISTRY_PASSWORD'' := p)\<rparr>) cfg)
             = fst (login w cfg)"
    using pw p by (simp add: login_def Let_def)
  show "execs (snd (login (w\<lparr>Getenv := (Getenv w)(''REGISTRY_PASSWORD'' := p)\<rparr>) cfg))
             = execs (snd (login w cfg))"
    using pw p by (simp add: login_def Let_def)
  show "logLines (snd (login (w\<lparr>Getenv := (Getenv w)(''REGISTRY_PASSWORD'' := p)\<rparr>) cfg))
             = logLines (snd (login w cfg))"
    using pw p by (simp add: login_def Let_def)
qed

text \<open>An instance: the example environment, in a real run and in a dry run.\<close>

theorem login_password_confined_witness:
  "Getenv exampleWorld ''REGISTRY_PASSWORD'' = ''s3cret''
   \<and> login exampleWorld exampleConfig =
       (None,
        [LogInfo (lockWithKey @ '' Authenticating with Docker registry: reg.example.com''),
         LogInfo ''   Username: ci'',
         Exec [''docker'', ''login'', ''reg.example.com'', ''-u'', ''ci'', ''--password-stdin''],
         WriteStdin (''s3cret'' @ [CHR 0x0A]),
         LogInfo (checkMark @ ''  Successfully authenticated with registry: reg.example.com'')])
   \<and> execs (snd (login (exampleWorld\<lparr>Getenv :=
                 (Getenv exampleWorld)(''REGISTRY_PASSWORD'' := ''hunter2'')\<rparr>) exampleConfig))
       = [[''docker'', ''login'', ''reg.example.com'', ''-u'', ''ci'', ''--password-stdin'']]
   \<and> login exampleWorld (exampleConfig\<lparr>DryRun := True\<rparr>) =
       (None,
        [LogInfo (lockWithKey @ '' Authenticating with Docker registry: reg.example.com''),
         LogInfo ''   Username: ci'',
         LogInfo (''   '' @ testTube @ '' [DRY-RUN] Would run: docker login reg.example.com -u ci'')])"
proof -
  have pw: "Getenv exampleWorld ''REGISTRY_PASSWORD'' \<noteq> []"
    and pv: "Getenv exampleWorld ''REGISTRY_PASSWORD'' = ''s3cret''"
    and u: "Getenv exampleWorld ''REGISTRY_USERNAME'' = ''ci''"
    and ok: "stdinPipeOk exampleWorld"
    by (simp_all add: exampleWorld_def)
  have p: "''hunter2'' \<noteq> []" by simp
  have l: "login exampleWorld exampleConfig =
       (None,
        [LogInfo (lockWithKey @ '' Authenticating with Docker registry: reg.example.com''),
         LogInfo ''   Username: ci'',
         Exec [''docker'', ''login'', ''reg.example.com'', ''-u'', ''ci'', ''--password-stdin''],
         WriteStdin (''s3cret'' @ [CHR 0x0A]),
         LogInfo (checkMark @ ''  Successfully authenticated with registry: reg.example.com'')])"
    by (simp add: login_def exampleWorld_def exampleConfig_def Let_def)
  have d: "DryRun (exampleConfig\<lparr>DryRun := True\<rparr>)" by simp
  have h: "DockerHost exampleConfig = ''reg.example.com''" "\<not> DryRun exampleConfig"
    by (simp_all add: exampleConfig_def)
  show ?thesis
    using login_password_confined[OF pw p, of exampleConfig]
      login_password_confined[OF pw p, of "exampleConfig\<lparr>DryRun := True\<rparr>"] pv u ok l h
    by simp
qed

section \<open>Image repository and validation\<close>

lemma example_validation_passes:
  "ValidateAll exampleWorld (exampleConfig\<lparr>DockerNamespace := []\<rparr>) =
     (([checkResult ''Configuration'' heavyCheck None,
        checkResult ''Helm flavour'' (helmSymbol @ '' '') None,
        checkResult ''Environment variables'' lockWithKey None,
        checkResult ''Environment values files'' pageFacingUp None,
        checkResult ''Kubernetes context'' (wheelOfDharma @ '' '') None,
        checkResult ''System tools'' (hammerAndWrench @ '' '') None], None),
      [Exec [''docker'', ''info'']])"
proof -
  let ?c = "exampleConfig\<lparr>DockerNamespace := []\<rparr>"
  have 1: "validateConfig exampleWorld ?c = None"
    by (simp add: validateConfig_table exampleConfig_def)
  have 2: "validateHelmFlavour ?c = None"
    by (simp add: validateHelmFlavour_def exampleConfig_def)
  have 3: "validateEnvVars exampleWorld = None"
    by (simp add: validateEnvVars_def exampleWorld_def)
  have 4: "validateEnvValueFiles exampleWorld ?c = None"
    using example_paths(2,3)
    by (simp add: validateEnvValueFiles_def exampleConfig_def envValuesPath_def)
       (simp add: exampleWorld_def)
  have 5: "validateKubeContext exampleWorld ?c = None"
    by (simp add: validateKubeContext_def exampleConfig_def exampleWorld_def)
  have 6: "validateTools exampleWorld = (None, [Exec [''docker'', ''info'']])"
    by (simp add: validateTools_def runCommand_def exampleWorld_def)
  show ?thesis
    by (simp add: ValidateAll_table 1 2 3 4 5 6)
qed

text \<open>
  C9. \<open>ImageRepository\<close> and \<open>ImageTag\<close> return an error exactly when the host, the
  namespace or the artifact name is empty. The registry does not mark the namespace
  and the host as required. Hence, for a configuration that passes all six checks,
  with the image build eligible and the host or the namespace empty, the image
  workflow fails with this error before any step, and so does the construction of
  the image overrides of the deployment workflow (which makes \<^verbatim>\<open>Run\<close> fail with it, if
  the chart and the values files are there). Such configurations exist: the last
  conjunct.
\<close>

theorem image_repository_gap:
  "((\<exists>e. ImageRepository cfg = Inl e)
      \<longleftrightarrow> DockerHost cfg = [] \<or> DockerNamespace cfg = [] \<or> ArtifactName cfg = [])
   \<and> ((\<exists>e. ImageTag cfg = Inl e)
      \<longleftrightarrow> DockerHost cfg = [] \<or> DockerNamespace cfg = [] \<or> ArtifactName cfg = [])
   \<and> (\<forall>f \<in> set (ConfigFields w).
         Name f = ''dockerNamespace'' \<or> Name f = ''dockerHost'' \<longrightarrow> \<not> Required f)
   \<and> (snd (fst (ValidateAll w cfg)) = None \<longrightarrow> ShouldRunDockerBuild w cfg \<longrightarrow>
        DockerHost cfg = [] \<or> DockerNamespace cfg = [] \<longrightarrow>
        DockerRunner_Run w cfg = (Some ErrImageRepository, [])
        \<and> buildImageArgs w cfg = (Inl ErrImageRepository, [])
        \<and> (fst (HelmRunner_Run w cfg) = Some ErrImageRepository
            \<or> (\<exists>err. fst (collectValuesFiles w cfg) = Inl err)
            \<or> Stat w (ChartPath cfg) = StatNotExist))
   \<and> (\<exists>w' cfg'. snd (fst (ValidateAll w' cfg')) = None
         \<and> DockerRunner_Run w' cfg' = (Some ErrImageRepository, [])
         \<and> buildImageArgs w' cfg' = (Inl ErrImageRepository, [])
         \<and> fst (HelmRunner_Run w' cfg') = Some ErrImageRepository)"
proof (intro conjI impI)
  show "(\<exists>e. ImageRepository cfg = Inl e)
      \<longleftrightarrow> DockerHost cfg = [] \<or> DockerNamespace cfg = [] \<or> ArtifactName cfg = []"
    by (simp add: ImageRepository_def)
  show "(\<exists>e. ImageTag cfg = Inl e)
      \<longleftrightarrow> DockerHost cfg = [] \<or> DockerNamespace cfg = [] \<or> ArtifactName cfg = []"
    by (simp add: ImageTag_def ImageRepository_def)
  show "\<forall>f \<in> set (ConfigFields w).
         Name f = ''dockerNamespace'' \<or> Name f = ''dockerHost'' \<longrightarrow> \<not> Required f"
    by (simp add: ConfigFields_def)
next
  assume s: "ShouldRunDockerBuild w cfg" and e: "DockerHost cfg = [] \<or> DockerNamespace cfg = []"
  from s e show "DockerRunner_Run w cfg = (Some ErrImageRepository, [])"
    by (auto simp: DockerRunner_Run_def ImageTag_def ImageRepository_def)
  from s e show "buildImageArgs w cfg = (Inl ErrImageRepository, [])"
    by (auto simp: buildImageArgs_def ImageRepository_def)
  from s e show "fst (HelmRunner_Run w cfg) = Some ErrImageRepository
            \<or> (\<exists>err. fst (collectValuesFiles w cfg) = Inl err)
            \<or> Stat w (ChartPath cfg) = StatNotExist"
    by (auto simp: HelmRunner_Run_fst deployArgs_fst collectValuesFiles_fst split: option.splits)
next
  let ?c = "exampleConfig\<lparr>DockerNamespace := []\<rparr>"
  have s: "ShouldRunDockerBuild exampleWorld ?c"
    by (simp add: skip_condition exampleWorld_def exampleConfig_def)
  have cp: "ChartPath ?c = ''/usr/local/share/dockwright/charts/stateless''"
    using example_paths(5) by (simp add: ChartPath_def)
  have v: "snd (fst (ValidateAll exampleWorld ?c)) = None"
    by (simp add: example_validation_passes)
  have d: "DockerRunner_Run exampleWorld ?c = (Some ErrImageRepository, [])"
    using s by (simp add: DockerRunner_Run_def ImageTag_def ImageRepository_def)
  have b: "buildImageArgs exampleWorld ?c = (Inl ErrImageRepository, [])"
    using s by (simp add: buildImageArgs_def ImageRepository_def)
  have "fst (deployArgs exampleWorld ?c) = Inl ErrImageRepository"
    using s example_paths(2,3)
    by (simp add: deployArgs_fst cp) (simp add: exampleWorld_def exampleConfig_def)
  then have h: "fst (HelmRunner_Run exampleWorld ?c) = Some ErrImageRepository"
    by (simp add: HelmRunner_Run_fst)
  from v d b h show "\<exists>w' cfg'. snd (fst (ValidateAll w' cfg')) = None
         \<and> DockerRunner_Run w' cfg' = (Some ErrImageRepository, [])
         \<and> buildImageArgs w' cfg' = (Inl ErrImageRepository, [])
         \<and> fst (HelmRunner_Run w' cfg') = Some ErrImageRepository"
    by blast
qed

text \<open>An instance: the example configuration with an empty namespace.\<close>

theorem image_repository_gap_witness:
  "Name (ConfigFields exampleWorld ! 2) = ''dockerNamespace''
   \<and> Required (ConfigFields exampleWorld ! 2) = False
   \<and> Name (ConfigFields exampleWorld ! 3) = ''dockerHost''
   \<and> Required (ConfigFields exampleWorld ! 3) = False
   \<and> snd (fst (ValidateAll exampleWorld (exampleConfig\<lparr>DockerNamespace := []\<rparr>))) = None
   \<and> ShouldRunDockerBuild exampleWorld (exampleConfig\<lparr>DockerNamespace := []\<rparr>)
   \<and> DockerNamespace (exampleConfig\<lparr>DockerNamespace := []\<rparr>) = []
   \<and> ImageRepository (exampleConfig\<lparr>DockerNamespace := []\<rparr>) = Inl ErrImageRepository
   \<and> ImageTag (exampleConfig\<lparr>DockerNamespace := []\<rparr>) = Inl ErrImageRepository
   \<and> DockerRunner_Run exampleWorld (exampleConfig\<lparr>DockerNamespace := []\<rparr>)
       = (Some ErrImageRepository, [])
   \<and> buildImageArgs exampleWorld (exampleConfig\<lparr>DockerNamespace := []\<rparr>)
       = (Inl ErrImageRepository, [])
   \<and> ImageRepository exampleConfig = Inr ''reg.example.com/acme/svc''
   \<and> ImageTag exampleConfig = Inr ''reg.example.com/acme/svc:latest''"
proof -
  let ?c = "exampleConfig\<lparr>DockerNamespace := []\<rparr>"
  have s: "ShouldRunDockerBuild exampleWorld ?c"
    by (simp add: skip_condition exampleWorld_def exampleConfig_def)
  have v: "snd (fst (ValidateAll exampleWorld ?c)) = None"
    by (simp add: example_validation_passes)
  have n: "DockerNamespace ?c = []" by simp
  have m: "ConfigFields exampleWorld ! 2 \<in> set (ConfigFields exampleWorld)"
    "ConfigFields exampleWorld ! 3 \<in> set (ConfigFields exampleWorld)"
    and k: "Name (ConfigFields exampleWorld ! 2) = ''dockerNamespace''"
    "Name (ConfigFields exampleWorld ! 3) = ''dockerHost''"
    by (simp_all add: ConfigFields_def)
  have "DockerRunner_Run exampleWorld ?c = (Some ErrImageRepository, [])
      \<and> buildImageArgs exampleWorld ?c = (Inl ErrImageRepository, [])"
    using image_repository_gap[of ?c exampleWorld] v s n by blast
  moreover have "Required (ConfigFields exampleWorld ! 2) = False"
    "Required (ConfigFields exampleWorld ! 3) = False"
    using image_repository_gap[of ?c exampleWorld] m k by blast+
  moreover note k
  moreover have "ImageRepository ?c = Inl ErrImageRepository"
    "ImageTag ?c = Inl ErrImageRepository"
    "ImageRepository exampleConfig = Inr ''reg.example.com/acme/svc''"
    "ImageTag exampleConfig = Inr ''reg.example.com/acme/svc:latest''"
    by (simp_all add: ImageTag_def ImageRepository_def exampleConfig_def)
  ultimately show ?thesis using v s n by simp
qed

section \<open>An empty list of environments\<close>

text \<open>
  C10. The registry does not mark the environments as required, and the outcome of
  the required-fields check does not depend on the list of environments: the check
  passes exactly when the artifact name, the flavour, the kubeconfig path and the
  context are not empty. With an empty list the check of the values files passes, the
  collection succeeds with the base file if it exists and nothing else, and the
  argument vector has a \<^verbatim>\<open>--values\<close> flag for the base file at most.
\<close>

theorem empty_env_list:
  assumes env: "Env cfg = []"
  shows "(\<forall>f \<in> set (ConfigFields w). Name f = ''env'' \<longrightarrow> \<not> Required f)
         \<and> validateConfig w cfg = validateConfig w (cfg\<lparr>Env := envs\<rparr>)
         \<and> (validateConfig w cfg = None
              \<longleftrightarrow> ArtifactName cfg \<noteq> [] \<and> HelmFlavour cfg \<noteq> []
                  \<and> KubernetesConfig cfg \<noteq> [] \<and> KubernetesContext cfg \<noteq> [])
         \<and> validateEnvValueFiles w cfg = None
         \<and> fst (collectValuesFiles w cfg)
             = Inr (if Stat w baseValuesPath = StatOk then [baseValuesPath] else [])
         \<and> (\<forall>args. fst (deployArgs w cfg) = Inr args \<longrightarrow>
               args =
                 [''upgrade'', ''--install'', ArtifactName cfg, ChartPath cfg,
                  ''--kubeconfig'', KubernetesConfig cfg]
                 @ (if KubernetesContext cfg \<noteq> []
                    then [''--kube-context'', KubernetesContext cfg] else [])
                 @ (if Stat w baseValuesPath = StatOk then [''--values'', baseValuesPath] else [])
                 @ (if ShouldRunDockerBuild w cfg
                    then [''--set'',
                          ''image.repository='' @ DockerHost cfg @ ''/''
                            @ DockerNamespace cfg @ ''/'' @ ArtifactName cfg,
                          ''--set'', ''image.tag=latest'']
                    else []))"
proof (intro conjI allI impI)
  show "\<forall>f \<in> set (ConfigFields w). Name f = ''env'' \<longrightarrow> \<not> Required f"
    by (simp add: ConfigFields_def)
  show "validateConfig w cfg = validateConfig w (cfg\<lparr>Env := envs\<rparr>)"
    by (simp add: validateConfig_table)
  show "validateConfig w cfg = None
              \<longleftrightarrow> ArtifactName cfg \<noteq> [] \<and> HelmFlavour cfg \<noteq> []
                  \<and> KubernetesConfig cfg \<noteq> [] \<and> KubernetesContext cfg \<noteq> []"
    by (simp add: validateConfig_table)
  show "validateEnvValueFiles w cfg = None"
    using env by (simp add: validateEnvValueFiles_def)
  show "fst (collectValuesFiles w cfg)
             = Inr (if Stat w baseValuesPath = StatOk then [baseValuesPath] else [])"
    using env by (simp add: collectValuesFiles_fst)
next
  fix args assume "fst (deployArgs w cfg) = Inr args"
  then show "args =
                 [''upgrade'', ''--install'', ArtifactName cfg, ChartPath cfg,
                  ''--kubeconfig'', KubernetesConfig cfg]
                 @ (if KubernetesContext cfg \<noteq> []
                    then [''--kube-context'', KubernetesContext cfg] else [])
                 @ (if Stat w baseValuesPath = StatOk then [''--values'', baseValuesPath] else [])
                 @ (if ShouldRunDockerBuild w cfg
                    then [''--set'',
                          ''image.repository='' @ DockerHost cfg @ ''/''
                            @ DockerNamespace cfg @ ''/'' @ ArtifactName cfg,
                          ''--set'', ''image.tag=latest'']
                    else [])"
    using env by (simp add: deployArgs_fst split: if_splits)
qed

text \<open>An instance: the example configuration without environments.\<close>

theorem empty_env_list_witness:
  "Name (ConfigFields exampleWorld ! 6) = ''env''
   \<and> Required (ConfigFields exampleWorld ! 6) = False
   \<and> Env (exampleConfig\<lparr>Env := []\<rparr>) = []
   \<and> validateConfig exampleWorld (exampleConfig\<lparr>Env := []\<rparr>) = None
   \<and> fst (collectValuesFiles exampleWorld (exampleConfig\<lparr>Env := []\<rparr>))
       = Inr [''.dockwright/helm/values.yaml'']
   \<and> fst (deployArgs exampleWorld (exampleConfig\<lparr>Env := []\<rparr>))
       = Inr [''upgrade'', ''--install'', ''svc'',
              ''/usr/local/share/dockwright/charts/stateless'',
              ''--kubeconfig'', ''/home/dev/.kube/config'',
              ''--kube-context'', ''dev-cluster'',
              ''--values'', ''.dockwright/helm/values.yaml'',
              ''--set'', ''image.repository=reg.example.com/acme/svc'',
              ''--set'', ''image.tag=latest'']"
proof -
  let ?c = "exampleConfig\<lparr>Env := []\<rparr>"
  have e: "Env ?c = []" by simp
  note r = empty_env_list[OF e, of exampleWorld]
  have cp: "ChartPath ?c = ''/usr/local/share/dockwright/charts/stateless''"
    using example_paths(5) by (simp add: ChartPath_def)
  have s: "ShouldRunDockerBuild exampleWorld ?c"
    by (simp add: skip_condition exampleWorld_def exampleConfig_def)
  have b: "Stat exampleWorld baseValuesPath = StatOk"
    by (simp add: example_paths exampleWorld_def)
  have "\<exists>args. fst (deployArgs exampleWorld ?c) = Inr args"
    using s b by (simp add: deployArgs_fst cp) (simp add: exampleWorld_def exampleConfig_def)
  then obtain args where a: "fst (deployArgs exampleWorld ?c) = Inr args"
    by blast
  with r have "args =
      [''upgrade'', ''--install'', ArtifactName ?c, ChartPath ?c,
       ''--kubeconfig'', KubernetesConfig ?c]
      @ (if KubernetesContext ?c \<noteq> [] then [''--kube-context'', KubernetesContext ?c] else [])
      @ (if Stat exampleWorld baseValuesPath = StatOk then [''--values'', baseValuesPath] else [])
      @ (if ShouldRunDockerBuild exampleWorld ?c
         then [''--set'',
               ''image.repository='' @ DockerHost ?c @ ''/'' @ DockerNamespace ?c @ ''/''
                 @ ArtifactName ?c,
               ''--set'', ''image.tag=latest'']
         else [])"
    by blast
  then have v: "args = [''upgrade'', ''--install'', ''svc'',
              ''/usr/local/share/dockwright/charts/stateless'',
              ''--kubeconfig'', ''/home/dev/.kube/config'',
              ''--kube-context'', ''dev-cluster'',
              ''--values'', ''.dockwright/helm/values.yaml'',
              ''--set'', ''image.repository=reg.example.com/acme/svc'',
              ''--set'', ''image.tag=latest'']"
    using s b by (simp add: cp example_paths) (simp add: exampleConfig_def)
  have m: "ConfigFields exampleWorld ! 6 \<in> set (ConfigFields exampleWorld)"
    and k: "Name (ConfigFields exampleWorld ! 6) = ''env''"
    by (simp_all add: ConfigFields_def)
  from r have "validateConfig exampleWorld ?c = None"
    by (simp add: exampleConfig_def)
  moreover from r m k have "Required (ConfigFields exampleWorld ! 6) = False"
    by blast
  moreover note k
  moreover from r b have "fst (collectValuesFiles exampleWorld ?c)
      = Inr [''.dockwright/helm/values.yaml'']"
    by (simp add: example_paths)
  ultimately show ?thesis using a v by simp
qed

end
